theory Spec2Isabelle
  imports Main "HOL-Library.AList"
begin

section \<open>Data model of the dashboard (\<^verbatim>\<open>App\<close> in generate-batch.ts, lines 2298 ff.)\<close>

text \<open>
  The TypeScript unions of string literals are datatypes, the object types are records.
  A JavaScript \<^verbatim>\<open>number\<close> is an \<^typ>\<open>int\<close>: the confidence score is compared with 3 and
  copied, never computed with; fractions and NaN are outside the model.
  A \<^verbatim>\<open>Record<string, T>\<close> is the association list of its own properties, in the order
  that \<^verbatim>\<open>Object.entries\<close> enumerates (see \<open>setProperty\<close> below). A JavaScript object
  never holds a key twice, so the lists of interest have distinct keys.
  The fields \<^verbatim>\<open>blockers\<close> and \<^verbatim>\<open>nextCheckpoint\<close> of a stored project state are options:
  \<open>None\<close> is a property that is absent, which the import can leave behind.
  \<^verbatim>\<open>new Date().toISOString()\<close> is a parameter \<open>now\<close> of each handler that reads the clock.
\<close>

datatype Energy = Low | Medium | High

datatype ProjectStateStatus = Planning | Building | Shipping | Maintenance | Paused

datatype ProjectCategory = Sacred | Commercial

datatype WorkMode = Dev | Sales | Content

record WorkModeOutput =
  wmo_mode :: WorkMode
  wmo_text :: string
  wmo_createdAt :: int

record Project =
  project_id :: string
  name :: string
  goal :: string
  category :: ProjectCategory

record Task =
  task_id :: string
  task_projectId :: string
  task_text :: string
  task_completed :: bool
  task_nextAction :: "string option"
  task_createdAt :: int

record Log =
  log_id :: string
  log_timestamp :: string
  log_projectId :: string
  log_energy :: Energy
  log_text :: string

record ProjectState =
  stage :: ProjectStateStatus
  blockers :: "string option"
  nextCheckpoint :: "string option"

record ProjectLedger =
  mission :: string
  oneSentenceGoal :: string
  currentReality :: string
  whatIsDone :: string
  whatIsWorking :: string
  whatIsBroken :: string
  whatIsMissing :: string
  assets :: string
  constraints :: string
  nextFocus :: string
  killCriteria :: string
  automationStatus :: string
  confidenceScore :: "int option"
  lastUpdated :: string

record Milestone =
  milestone_id :: string
  milestone_projectId :: string
  milestone_text :: string
  milestone_done :: bool
  milestone_createdAt :: int

text \<open>The React state of \<^verbatim>\<open>App\<close> that the handlers below read and set (lines 2749-2767).\<close>

record app_state =
  projects :: "Project list"
  selectedProjectId :: string
  energy :: Energy
  tasks :: "Task list"
  logs :: "Log list"
  workMode :: WorkMode
  workModeOutputs :: "(string \<times> WorkModeOutput) list"
  projectState :: "(string \<times> ProjectState) list"
  projectLedger :: "(string \<times> ProjectLedger) list"
  milestones :: "Milestone list"
  scOutreachSpec :: string

subsection \<open>Seed data and defaults (lines 2502-2630)\<close>

subsection \<open>Own properties of a plain object\<close>

text \<open>
  \<^verbatim>\<open>Object.entries\<close> lists the own keys that are array indices (the canonical decimal
  numerals of 0 to 4294967294) first, in ascending numeric order, and then the other string
  keys in the order of their creation. \<open>arrayIndex\<close> recognises an array index and gives
  its value.
\<close>

definition isDigit :: "char \<Rightarrow> bool" where
  "isDigit c = (48 \<le> (of_char c :: int) \<and> (of_char c :: int) \<le> 57)"

definition digitsValue :: "string \<Rightarrow> int" where
  "digitsValue s = foldl (\<lambda>n c. 10 * n + (of_char c - 48)) 0 s"

definition arrayIndex :: "string \<Rightarrow> int option" where
  "arrayIndex s =
     (case s of
        [] \<Rightarrow> None
      | c # cs \<Rightarrow>
          if list_all isDigit s \<and> (c \<noteq> CHR ''0'' \<or> cs = []) \<and> digitsValue s < 4294967295
          then Some (digitsValue s) else None)"

text \<open>A new array-index key goes before the first key that is not a smaller array index.\<close>

fun insertIndexKey :: "int \<Rightarrow> string \<Rightarrow> 'v \<Rightarrow> (string \<times> 'v) list \<Rightarrow> (string \<times> 'v) list" where
  "insertIndexKey n k v [] = [(k, v)]"
| "insertIndexKey n k v (p # ps) =
     (case arrayIndex (fst p) of
        Some m \<Rightarrow> if m < n then p # insertIndexKey n k v ps else (k, v) # p # ps
      | None \<Rightarrow> (k, v) # p # ps)"

definition hasOwn :: "(string \<times> 'v) list \<Rightarrow> string \<Rightarrow> bool" where
  "hasOwn obj k = (map_of obj k \<noteq> None)"

text \<open>
  \<^verbatim>\<open>{...obj, [k]: v}\<close>: the value of an existing key is replaced in place
  (\<^const>\<open>AList.update\<close>); a new key that is an array index is inserted among the array
  indices, and any other new key is appended (which \<^const>\<open>AList.update\<close> does, too).
\<close>

definition setProperty :: "string \<Rightarrow> 'v \<Rightarrow> (string \<times> 'v) list \<Rightarrow> (string \<times> 'v) list" where
  "setProperty k v obj =
     (case arrayIndex k of
        Some n \<Rightarrow> if hasOwn obj k then AList.update k v obj else insertIndexKey n k v obj
      | None \<Rightarrow> AList.update k v obj)"

text \<open>
  The property names that every plain object inherits from \<^verbatim>\<open>Object.prototype\<close>. A read
  \<^verbatim>\<open>obj[k]\<close> of such a name finds a function (or, for \<^verbatim>\<open>__proto__\<close>, the prototype) when
  \<open>k\<close> is not an own key: a truthy value without enumerable properties of its own.
\<close>

definition objectPrototypeMembers :: "string list" where
  "objectPrototypeMembers =
     [''constructor'', ''__defineGetter__'', ''__defineSetter__'', ''hasOwnProperty'',
      ''__lookupGetter__'', ''__lookupSetter__'', ''isPrototypeOf'', ''propertyIsEnumerable'',
      ''toString'', ''valueOf'', ''__proto__'', ''toLocaleString'']"

text \<open>
  The assignment \<^verbatim>\<open>obj[k] = v\<close> of an object \<open>v\<close>: for the key \<^verbatim>\<open>__proto__\<close>, unless it is an
  own key, the inherited setter replaces the prototype and no own property is created;
  every other key is set as above. (The prototype is not part of the association list.)
\<close>

definition assignProperty :: "string \<Rightarrow> 'v \<Rightarrow> (string \<times> 'v) list \<Rightarrow> (string \<times> 'v) list" where
  "assignProperty k v obj =
     (if k = ''__proto__'' \<and> \<not> hasOwn obj k then obj else setProperty k v obj)"

definition DEFAULT_PROJECTS :: "Project list" where
  "DEFAULT_PROJECTS =
    [\<lparr>project_id = ''ark-engine'', name = ''Ark Engine (Core)'',
       goal = ''The command center that tracks truth, progress, and decisions.'',
       category = Commercial\<rparr>,
     \<lparr>project_id = ''amanuel-travel'', name = ''ATA - Amanuel Travel Agency'',
       goal = ''Travel website and booking system for Eritrean/diaspora travelers.'',
       category = Commercial\<rparr>,
     \<lparr>project_id = ''signalcrypt'', name = ''SignalCrypt'',
       goal = ''B2B security / trust audit offer with approval-gated outbound systems.'',
       category = Commercial\<rparr>,
     \<lparr>project_id = ''strong-still'', name = ''Strong & Still'',
       goal = ''Ministry, devotionals, books, spiritual writing, and faith-based rebuilding.'',
       category = Sacred\<rparr>,
     \<lparr>project_id = ''luxury-pet'', name = ''Luxury Pet Business'',
       goal = ''High-end pet adventures and services.'',
       category = Commercial\<rparr>,
     \<lparr>project_id = ''surplus'', name = ''Surplus Data / Surplus Properties'',
       goal = ''Identify surplus or public assets and match buyers intelligently.'',
       category = Commercial\<rparr>,
     \<lparr>project_id = ''cik-workforce'', name = ''CIK Workforce System'',
       goal = ''Workforce management and automation for construction/field teams.'',
       category = Commercial\<rparr>,
     \<lparr>project_id = ''ndc-iata'', name = ''NDC / IATA Airline System'',
       goal = ''Research and future platform for modern airline distribution and APIs.'',
       category = Commercial\<rparr>,
     \<lparr>project_id = ''rebuild-nation'', name = ''Rebuild Nation'',
       goal = ''Umbrella identity and long-term legacy mission.'',
       category = Sacred\<rparr>,
     \<lparr>project_id = ''automation-workflows'', name = ''Automation Workflows & Agents'',
       goal = ''Supporting systems that reduce manual effort across projects.'',
       category = Commercial\<rparr>]"

text \<open>\<^verbatim>\<open>a || b\<close> on strings: the empty string is falsy.\<close>

definition or_str :: "string \<Rightarrow> string \<Rightarrow> string" where
  "or_str a b = (if a \<noteq> [] then a else b)"

definition defaultProjectStateEntry :: ProjectState where
  "defaultProjectStateEntry = \<lparr>stage = Planning, blockers = Some [], nextCheckpoint = Some []\<rparr>"

definition createDefaultProjectState :: "(string \<times> ProjectState) list" where
  "createDefaultProjectState =
     map (\<lambda>project. (project_id project, defaultProjectStateEntry)) DEFAULT_PROJECTS"

definition emptyLedger :: "string \<Rightarrow> ProjectLedger" where
  "emptyLedger g =
     \<lparr>mission = [], oneSentenceGoal = g, currentReality = [], whatIsDone = [],
      whatIsWorking = [], whatIsBroken = [], whatIsMissing = [], assets = [],
      constraints = [], nextFocus = [], killCriteria = [], automationStatus = [],
      confidenceScore = None, lastUpdated = []\<rparr>"

definition createDefaultProjectLedger :: "(string \<times> ProjectLedger) list" where
  "createDefaultProjectLedger =
     map (\<lambda>project. (project_id project, emptyLedger (goal project))) DEFAULT_PROJECTS"

subsection \<open>Values derived on each render (lines 2930-3019)\<close>

text \<open>
  The reads \<^verbatim>\<open>projectState[selectedProjectId]\<close> and \<^verbatim>\<open>projectLedger[selectedProjectId]\<close>
  are reads of the own property: the identifier of the selected project is taken not to
  be one of the names in \<open>objectPrototypeMembers\<close>.
\<close>

definition currentProjectState :: "app_state \<Rightarrow> ProjectState" where
  "currentProjectState st =
     (case map_of (projectState st) (selectedProjectId st) of
        Some s \<Rightarrow> s
      | None \<Rightarrow> \<lparr>stage = Planning, blockers = Some [], nextCheckpoint = Some []\<rparr>)"

definition currentProject :: "app_state \<Rightarrow> Project option" where
  "currentProject st = find (\<lambda>p. project_id p = selectedProjectId st) (projects st)"

definition currentProjectLedger :: "app_state \<Rightarrow> ProjectLedger" where
  "currentProjectLedger st =
     (case map_of (projectLedger st) (selectedProjectId st) of
        Some l \<Rightarrow> l
      | None \<Rightarrow>
         (case map_of createDefaultProjectLedger (selectedProjectId st) of
            Some l \<Rightarrow> l
          | None \<Rightarrow>
             emptyLedger (case currentProject st of
                            Some p \<Rightarrow> or_str (goal p) []
                          | None \<Rightarrow> [])))"

definition confidenceScore' :: "app_state \<Rightarrow> int option" where
  "confidenceScore' st = confidenceScore (currentProjectLedger st)"

definition isConfidenceUnset :: "app_state \<Rightarrow> bool" where
  "isConfidenceUnset st = (confidenceScore' st = None)"

definition isConfidenceLow :: "app_state \<Rightarrow> bool" where
  "isConfidenceLow st =
     (case confidenceScore' st of None \<Rightarrow> False | Some c \<Rightarrow> c < 3)"

definition buildingProjectIds :: "app_state \<Rightarrow> string list" where
  "buildingProjectIds st =
     map fst (filter (\<lambda>e. stage (snd e) = Building) (projectState st))"

definition projectDisplayName :: "Project list \<Rightarrow> string \<Rightarrow> string" where
  "projectDisplayName ps projectId =
     (case find (\<lambda>project. project_id project = projectId) ps of
        Some project \<Rightarrow> or_str (name project) projectId
      | None \<Rightarrow> projectId)"

definition buildingProjectNames :: "app_state \<Rightarrow> string list" where
  "buildingProjectNames st = map (projectDisplayName (projects st)) (buildingProjectIds st)"

definition hasBuildingConflict :: "app_state \<Rightarrow> bool" where
  "hasBuildingConflict st = (length (buildingProjectIds st) > 1)"

definition isExecutionBlocked :: "app_state \<Rightarrow> bool" where
  "isExecutionBlocked st =
     (hasBuildingConflict st \<or> isConfidenceLow st \<or> isConfidenceUnset st)"

text \<open>\<^verbatim>\<open>Array.prototype.join\<close> on strings.\<close>

fun join :: "string \<Rightarrow> string list \<Rightarrow> string" where
  "join sep [] = []"
| "join sep [x] = x"
| "join sep (x # y # ys) = x @ sep @ join sep (y # ys)"

definition buildingConflictMessage :: "string list \<Rightarrow> string" where
  "buildingConflictMessage names = ''Multiple projects in Building: '' @ join '', '' names"

definition executionBlockMessages :: "app_state \<Rightarrow> string list" where
  "executionBlockMessages st =
     (if hasBuildingConflict st then [buildingConflictMessage (buildingProjectNames st)] else [])
     @ (if isConfidenceUnset st then [''Confidence score is not set for this project'']
        else if isConfidenceLow st then [''Confidence score is below 3 for this project'']
        else [])"

subsection \<open>Stage and ledger handlers (lines 3037-3091)\<close>

text \<open>
  \<^verbatim>\<open>touchLedgerUpdate\<close> reads \<^verbatim>\<open>projectLedger\<close>, \<^verbatim>\<open>currentProjectLedger\<close> and
  \<^verbatim>\<open>selectedProjectId\<close> of the current render and sets \<^verbatim>\<open>projectLedger\<close>; it does not
  read \<^verbatim>\<open>projectState\<close>.
\<close>

definition touchLedgerUpdate :: "string \<Rightarrow> app_state \<Rightarrow> app_state" where
  "touchLedgerUpdate now st =
     (let baseLedger = (case map_of (projectLedger st) (selectedProjectId st) of
                          Some l \<Rightarrow> l | None \<Rightarrow> currentProjectLedger st)
      in st\<lparr>projectLedger :=
               setProperty (selectedProjectId st) (baseLedger\<lparr>lastUpdated := now\<rparr>)
                 (projectLedger st)\<rparr>)"

text \<open>
  The pair \<^verbatim>\<open>(field, value)\<close> of \<^verbatim>\<open>handleUpdateProjectState\<close>, at the types of
  \<^verbatim>\<open>ProjectState\<close>.
\<close>

datatype ProjectState_update =
  Set_stage ProjectStateStatus
| Set_blockers string
| Set_nextCheckpoint string

fun applyProjectStateUpdate :: "ProjectState_update \<Rightarrow> ProjectState \<Rightarrow> ProjectState" where
  "applyProjectStateUpdate (Set_stage v) s = s\<lparr>stage := v\<rparr>"
| "applyProjectStateUpdate (Set_blockers v) s = s\<lparr>blockers := Some v\<rparr>"
| "applyProjectStateUpdate (Set_nextCheckpoint v) s = s\<lparr>nextCheckpoint := Some v\<rparr>"

definition confidenceAlert :: string where
  "confidenceAlert = ''Confidence must be 3+ to move into Building or Shipping.''"

definition buildingAlert :: string where
  "buildingAlert = ''Only one project can be in Building. Resolve the conflict first.''"

text \<open>
  The guard of \<^verbatim>\<open>handleUpdateProjectState\<close> (lines 3050-3063): the text of the
  \<^verbatim>\<open>alert\<close> that precedes the early \<^verbatim>\<open>return\<close>, if any.
\<close>

definition stageGuard :: "ProjectState_update \<Rightarrow> app_state \<Rightarrow> string option" where
  "stageGuard upd st =
     (case upd of
        Set_stage nextStage \<Rightarrow>
          if (nextStage = Building \<or> nextStage = Shipping)
             \<and> (isConfidenceLow st \<or> isConfidenceUnset st)
          then Some confidenceAlert
          else if nextStage = Building
                  \<and> filter (\<lambda>projectId. projectId \<noteq> selectedProjectId st)
                       (buildingProjectIds st) \<noteq> []
          then Some buildingAlert
          else None
      | _ \<Rightarrow> None)"

text \<open>
  The handler returns the alert shown (if any) and the state after it. An accepted update
  calls \<^verbatim>\<open>setProjectState\<close> and then \<^verbatim>\<open>touchLedgerUpdate\<close>.
\<close>

definition handleUpdateProjectState ::
  "string \<Rightarrow> ProjectState_update \<Rightarrow> app_state \<Rightarrow> string option \<times> app_state" where
  "handleUpdateProjectState now upd st =
     (case stageGuard upd st of
        Some msg \<Rightarrow> (Some msg, st)
      | None \<Rightarrow>
          (None,
           touchLedgerUpdate now
             (st\<lparr>projectState :=
                   setProperty (selectedProjectId st)
                     (applyProjectStateUpdate upd (currentProjectState st))
                     (projectState st)\<rparr>)))"

text \<open>
  The pair \<^verbatim>\<open>(field, value)\<close> of \<^verbatim>\<open>handleUpdateProjectLedger\<close>, at the types of
  \<^verbatim>\<open>ProjectLedger\<close>; on a number \<^verbatim>\<open>Number(value)\<close> is the number itself.
\<close>

datatype ProjectLedger_update =
  Set_mission string
| Set_oneSentenceGoal string
| Set_currentReality string
| Set_whatIsDone string
| Set_whatIsWorking string
| Set_whatIsBroken string
| Set_whatIsMissing string
| Set_assets string
| Set_constraints string
| Set_nextFocus string
| Set_killCriteria string
| Set_automationStatus string
| Set_confidenceScore "int option"
| Set_lastUpdated string

fun applyProjectLedgerUpdate :: "ProjectLedger_update \<Rightarrow> ProjectLedger \<Rightarrow> ProjectLedger" where
  "applyProjectLedgerUpdate (Set_mission v) l = l\<lparr>mission := v\<rparr>"
| "applyProjectLedgerUpdate (Set_oneSentenceGoal v) l = l\<lparr>oneSentenceGoal := v\<rparr>"
| "applyProjectLedgerUpdate (Set_currentReality v) l = l\<lparr>currentReality := v\<rparr>"
| "applyProjectLedgerUpdate (Set_whatIsDone v) l = l\<lparr>whatIsDone := v\<rparr>"
| "applyProjectLedgerUpdate (Set_whatIsWorking v) l = l\<lparr>whatIsWorking := v\<rparr>"
| "applyProjectLedgerUpdate (Set_whatIsBroken v) l = l\<lparr>whatIsBroken := v\<rparr>"
| "applyProjectLedgerUpdate (Set_whatIsMissing v) l = l\<lparr>whatIsMissing := v\<rparr>"
| "applyProjectLedgerUpdate (Set_assets v) l = l\<lparr>assets := v\<rparr>"
| "applyProjectLedgerUpdate (Set_constraints v) l = l\<lparr>constraints := v\<rparr>"
| "applyProjectLedgerUpdate (Set_nextFocus v) l = l\<lparr>nextFocus := v\<rparr>"
| "applyProjectLedgerUpdate (Set_killCriteria v) l = l\<lparr>killCriteria := v\<rparr>"
| "applyProjectLedgerUpdate (Set_automationStatus v) l = l\<lparr>automationStatus := v\<rparr>"
| "applyProjectLedgerUpdate (Set_confidenceScore v) l =
     l\<lparr>confidenceScore := (case v of None \<Rightarrow> None | Some n \<Rightarrow> Some n)\<rparr>"
| "applyProjectLedgerUpdate (Set_lastUpdated v) l = l\<lparr>lastUpdated := v\<rparr>"

definition handleUpdateProjectLedger ::
  "string \<Rightarrow> ProjectLedger_update \<Rightarrow> app_state \<Rightarrow> app_state" where
  "handleUpdateProjectLedger now upd st =
     (let currentLedger = (case map_of (projectLedger st) (selectedProjectId st) of
                             Some l \<Rightarrow> l | None \<Rightarrow> currentProjectLedger st)
      in st\<lparr>projectLedger :=
               setProperty (selectedProjectId st)
                 ((applyProjectLedgerUpdate upd currentLedger)\<lparr>lastUpdated := now\<rparr>)
                 (projectLedger st)\<rparr>)"

text \<open>
  A stage-change request on project \<open>p\<close>: the project selector sets
  \<^verbatim>\<open>selectedProjectId\<close> (line 4204), then the stage selector calls
  \<^verbatim>\<open>handleUpdateProjectState('stage', s)\<close> (line 4275).
\<close>

definition setSelectedProjectId :: "string \<Rightarrow> app_state \<Rightarrow> app_state" where
  "setSelectedProjectId p st = st\<lparr>selectedProjectId := p\<rparr>"

fun stageChangeRequests ::
  "(string \<times> ProjectStateStatus \<times> string) list \<Rightarrow> app_state \<Rightarrow> app_state" where
  "stageChangeRequests [] st = st"
| "stageChangeRequests ((p, s, now) # rs) st =
     stageChangeRequests rs
       (snd (handleUpdateProjectState now (Set_stage s) (setSelectedProjectId p st)))"

subsection \<open>Import (lines 2576-2597 and 3660-3749)\<close>

text \<open>
  A field of the parsed document that the handler tests with \<^verbatim>\<open>!x || !Array.isArray(x)\<close>:
  \<open>Falsy\<close> is a field that is absent, \<^verbatim>\<open>null\<close>, \<^verbatim>\<open>false\<close>, \<^verbatim>\<open>0\<close> or \<^verbatim>\<open>""\<close>;
  \<open>NotArray\<close> is any other value that is not an array (a non-empty string, an object ...).
\<close>

datatype 'a json_array_field = Falsy | NotArray | Array "'a list"

fun truthy :: "'a json_array_field \<Rightarrow> bool" where
  "truthy Falsy = False"
| "truthy NotArray = True"
| "truthy (Array xs) = True"

fun isArray :: "'a json_array_field \<Rightarrow> bool" where
  "isArray (Array xs) = True"
| "isArray _ = False"

fun arrayItems :: "'a json_array_field \<Rightarrow> 'a list" where
  "arrayItems (Array xs) = xs"
| "arrayItems _ = []"

text \<open>
  The parsed document, cast to \<^verbatim>\<open>ExportData\<close> by the handler. Optional fields are
  options (\<open>None\<close>: absent); apart from \<^verbatim>\<open>tasks\<close> and \<^verbatim>\<open>logs\<close>, whose shape the handler
  checks, a field that is present has its declared type. An optional string is restored
  only when it is non-empty. The objects of the document are given by their entries in
  the order of \<^verbatim>\<open>Object.entries\<close>; their keys are any strings.
\<close>

record ExportData =
  data_exportedAt :: "string option"
  data_selectedProjectId :: "string option"
  data_energy :: "Energy option"
  data_projects :: "Project list option"
  data_tasks :: "Task json_array_field"
  data_logs :: "Log json_array_field"
  data_workMode :: "WorkMode option"
  data_workModeOutputs :: "(string \<times> WorkModeOutput) list option"
  data_projectState :: "(string \<times> ProjectState) list option"
  data_milestones :: "Milestone list option"
  data_projectLedger :: "(string \<times> ProjectLedger) list option"
  data_outreachAgentSpec :: "string option"
  data_projectStatuses :: "(string \<times> ProjectStateStatus) list option"

text \<open>
  What the file dialog delivers: no file chosen, a text on which \<^verbatim>\<open>JSON.parse\<close> throws
  (or that parses to \<^verbatim>\<open>null\<close>, on which reading \<^verbatim>\<open>data.tasks\<close> throws), or a document.
\<close>

datatype import_input = NoFile | Unparsable | Parsed ExportData

definition mergeProject :: "Project \<Rightarrow> Project" where
  "mergeProject project =
     (case find (\<lambda>d. project_id d = project_id project) DEFAULT_PROJECTS of
        None \<Rightarrow> project
      | Some defaults \<Rightarrow>
          \<lparr>project_id = project_id project,
           name = or_str (name project) (name defaults),
           goal = or_str (goal project) (goal defaults),
           category = category project\<rparr>)"

definition mergeProjects :: "Project list \<Rightarrow> Project list" where
  "mergeProjects storedProjects =
     foldl (\<lambda>merged project.
              if list_ex (\<lambda>existing. project_id existing = project_id project) merged
              then merged else merged @ [project])
       (map mergeProject storedProjects) DEFAULT_PROJECTS"

text \<open>
  \<^verbatim>\<open>{...mergedState[projectId], ...state}\<close> (line 3702): the fields of the imported entry,
  and for a field that it lacks the field of the entry already there. The stage of an
  imported entry is present, as the type \<^verbatim>\<open>ProjectState\<close> declares it.
\<close>

definition mergeProjectStateEntry :: "ProjectState option \<Rightarrow> ProjectState \<Rightarrow> ProjectState" where
  "mergeProjectStateEntry base state =
     \<lparr>stage = stage state,
      blockers = (case blockers state of
                    Some b \<Rightarrow> Some b
                  | None \<Rightarrow> (case base of Some m \<Rightarrow> blockers m | None \<Rightarrow> None)),
      nextCheckpoint = (case nextCheckpoint state of
                          Some c \<Rightarrow> Some c
                        | None \<Rightarrow> (case base of Some m \<Rightarrow> nextCheckpoint m | None \<Rightarrow> None))\<rparr>"

text \<open>
  The entries of the document are given in the order of \<^verbatim>\<open>Object.entries\<close>. A key that
  \<^verbatim>\<open>mergedState\<close> only inherits contributes no field to the spread, like an absent key.
\<close>

definition importProjectState :: "(string \<times> ProjectState) list \<Rightarrow> (string \<times> ProjectState) list" where
  "importProjectState entries =
     foldl (\<lambda>mergedState e.
              assignProperty (fst e)
                (mergeProjectStateEntry (map_of mergedState (fst e)) (snd e)) mergedState)
       createDefaultProjectState entries"

text \<open>
  The legacy statuses (lines 3708-3718). The test \<^verbatim>\<open>if (defaults[projectId])\<close> holds for an
  own key and also for a key that \<^verbatim>\<open>defaults\<close> inherits: there the spread of the inherited
  value has no field of a project state, so the entry written has the stage alone. The key
  \<^verbatim>\<open>__proto__\<close> writes no entry but replaces the prototype by an object with the property
  \<^verbatim>\<open>stage\<close>, which \<^verbatim>\<open>defaults\<close> inherits from then on; the flag of the loop records that.
\<close>

definition importProjectStatusesStep ::
  "(string \<times> ProjectState) list \<times> bool \<Rightarrow> string \<times> ProjectStateStatus
   \<Rightarrow> (string \<times> ProjectState) list \<times> bool" where
  "importProjectStatusesStep acc e =
     (case acc of
        (defaults, protoReplaced) \<Rightarrow>
          (case map_of defaults (fst e) of
             Some s \<Rightarrow> (assignProperty (fst e) (s\<lparr>stage := snd e\<rparr>) defaults, protoReplaced)
           | None \<Rightarrow>
               if fst e = ''__proto__'' then (defaults, True)
               else if fst e \<in> set objectPrototypeMembers \<or> (protoReplaced \<and> fst e = ''stage'')
               then (assignProperty (fst e)
                       \<lparr>stage = snd e, blockers = None, nextCheckpoint = None\<rparr> defaults,
                     protoReplaced)
               else (defaults, protoReplaced)))"

definition importProjectStatuses ::
  "(string \<times> ProjectStateStatus) list \<Rightarrow> (string \<times> ProjectState) list" where
  "importProjectStatuses entries =
     fst (foldl importProjectStatusesStep (createDefaultProjectState, False) entries)"

text \<open>
  The ledgers (lines 3725-3735). A key that \<^verbatim>\<open>mergedLedger\<close> only inherits has no
  \<^verbatim>\<open>oneSentenceGoal\<close>, like an absent key.
\<close>

definition importProjectLedger ::
  "(string \<times> ProjectLedger) list \<Rightarrow> (string \<times> ProjectLedger) list" where
  "importProjectLedger entries =
     foldl (\<lambda>mergedLedger e.
              assignProperty (fst e)
                ((snd e)\<lparr>oneSentenceGoal :=
                    or_str (oneSentenceGoal (snd e))
                      (or_str (case map_of mergedLedger (fst e) of
                                 Some l \<Rightarrow> oneSentenceGoal l | None \<Rightarrow> [])
                         [])\<rparr>)
                mergedLedger)
       createDefaultProjectLedger entries"

text \<open>The setters after the shape check (lines 3683-3739), in the order of the source.\<close>

definition restoreData :: "ExportData \<Rightarrow> app_state \<Rightarrow> app_state" where
  "restoreData d st =
     (let st1 = (case data_energy d of Some e \<Rightarrow> st\<lparr>energy := e\<rparr> | None \<Rightarrow> st);
          st2 = (case data_selectedProjectId d of
                   Some p \<Rightarrow> if p \<noteq> [] then st1\<lparr>selectedProjectId := p\<rparr> else st1
                 | None \<Rightarrow> st1);
          st3 = (if truthy (data_tasks d) then st2\<lparr>tasks := arrayItems (data_tasks d)\<rparr> else st2);
          st4 = (if truthy (data_logs d) then st3\<lparr>logs := arrayItems (data_logs d)\<rparr> else st3);
          st5 = (case data_projects d of
                   Some ps \<Rightarrow> st4\<lparr>projects := mergeProjects ps\<rparr> | None \<Rightarrow> st4);
          st6 = (case data_workMode d of Some m \<Rightarrow> st5\<lparr>workMode := m\<rparr> | None \<Rightarrow> st5);
          st7 = (case data_workModeOutputs d of
                   Some os \<Rightarrow> st6\<lparr>workModeOutputs := os\<rparr> | None \<Rightarrow> st6);
          st8 = (case data_projectState d of
                   Some entries \<Rightarrow> st7\<lparr>projectState := importProjectState entries\<rparr>
                 | None \<Rightarrow>
                     (case data_projectStatuses d of
                        Some statuses \<Rightarrow> st7\<lparr>projectState := importProjectStatuses statuses\<rparr>
                      | None \<Rightarrow> st7));
          st9 = (case data_milestones d of
                   Some ms \<Rightarrow> st8\<lparr>milestones := ms\<rparr> | None \<Rightarrow> st8);
          st10 = (case data_projectLedger d of
                    Some entries \<Rightarrow> st9\<lparr>projectLedger := importProjectLedger entries\<rparr>
                  | None \<Rightarrow> st9)
      in (case data_outreachAgentSpec d of
            Some spec \<Rightarrow> if spec \<noteq> [] then st10\<lparr>scOutreachSpec := spec\<rparr> else st10
          | None \<Rightarrow> st10))"

definition tasksAlert :: string where
  "tasksAlert = ''Invalid import file: missing or invalid tasks array''"

definition logsAlert :: string where
  "logsAlert = ''Invalid import file: missing or invalid logs array''"

definition parseAlert :: string where
  "parseAlert = ''Failed to parse import file. Please check the file format.''"

definition importedAlert :: string where
  "importedAlert = ''Data imported successfully!''"

text \<open>The handler returns the alert shown (if any) and the state after it.\<close>

definition handleImport :: "import_input \<Rightarrow> app_state \<Rightarrow> string option \<times> app_state" where
  "handleImport input st =
     (case input of
        NoFile \<Rightarrow> (None, st)
      | Unparsable \<Rightarrow> (Some parseAlert, st)
      | Parsed d \<Rightarrow>
          if \<not> truthy (data_tasks d) \<or> \<not> isArray (data_tasks d) then (Some tasksAlert, st)
          else if \<not> truthy (data_logs d) \<or> \<not> isArray (data_logs d) then (Some logsAlert, st)
          else (Some importedAlert, restoreData d st))"

subsection \<open>SignalCrypt batch (lines 2395-2417, 2975-3003 and 3751-3869)\<close>

text \<open>
  Of a batch the handler reads and writes \<^verbatim>\<open>approval\<close> only; the mock batch sets
  \<^verbatim>\<open>batchId\<close>, \<^verbatim>\<open>preparedAt\<close> and \<^verbatim>\<open>approval\<close> from the clock and constants. The other
  fields (targets, templates, schedule ...) are the component \<open>rest\<close>, which is copied and
  never inspected. The approval status of a server response is any string, or absent.
\<close>

record Approval =
  status :: "string option"
  approvedBy :: string
  approvedAt :: string

record 'r SignalCryptBatch =
  batchId :: string
  preparedAt :: string
  approval :: "Approval option"
  rest :: 'r

text \<open>
  The React state of the batch panel and the \<^verbatim>\<open>localStorage\<close> entry under
  \<^verbatim>\<open>SC_BATCH_KEY\<close> (the batch itself stands for its JSON text).
\<close>

record 'r sc_state =
  scBatch :: "'r SignalCryptBatch option"
  scLoading :: bool
  scError :: "string option"
  scBatchStorage :: "'r SignalCryptBatch option"

definition signalCryptLedger :: "app_state \<Rightarrow> ProjectLedger" where
  "signalCryptLedger st =
     (case map_of (projectLedger st) ''signalcrypt'' of
        Some l \<Rightarrow> l
      | None \<Rightarrow>
         (case map_of createDefaultProjectLedger ''signalcrypt'' of
            Some l \<Rightarrow> l
          | None \<Rightarrow> emptyLedger []))"

definition signalCryptConfidence :: "app_state \<Rightarrow> int option" where
  "signalCryptConfidence st = confidenceScore (signalCryptLedger st)"

definition isSignalCryptPaused :: "app_state \<Rightarrow> bool" where
  "isSignalCryptPaused st =
     (case map_of (projectState st) ''signalcrypt'' of
        Some s \<Rightarrow> stage s = Paused | None \<Rightarrow> False)"

definition isSignalCryptLocked :: "app_state \<Rightarrow> bool" where
  "isSignalCryptLocked st =
     (hasBuildingConflict st \<or> isSignalCryptPaused st
      \<or> (case signalCryptConfidence st of None \<Rightarrow> True | Some c \<Rightarrow> c < 3))"

definition signalCryptLockReason :: "app_state \<Rightarrow> string" where
  "signalCryptLockReason st =
     (if hasBuildingConflict st then ''Resolve the Building conflict first.''
      else if isSignalCryptPaused st then ''SignalCrypt is paused.''
      else if signalCryptConfidence st = None
      then ''Set a SignalCrypt confidence score before generating batches.''
      else ''SignalCrypt confidence is below 3.'')"

text \<open>Decimal digits of a status code, for the template string of the thrown error.\<close>

function string_of_nat :: "nat \<Rightarrow> string" where
  "string_of_nat n =
     (if n < 10 then [char_of (48 + n)]
      else string_of_nat (n div 10) @ [char_of (48 + n mod 10)])"
  by pat_completeness auto
termination
  by (relation "measure id") auto

text \<open>\<^verbatim>\<open>String.prototype.includes\<close>.\<close>

fun startsWith :: "string \<Rightarrow> string \<Rightarrow> bool" where
  "startsWith s [] = True"
| "startsWith [] (c # cs) = False"
| "startsWith (x # xs) (c # cs) = (x = c \<and> startsWith xs cs)"

fun includes_str :: "string \<Rightarrow> string \<Rightarrow> bool" where
  "includes_str [] sub = (sub = [])"
| "includes_str (x # xs) sub = (startsWith (x # xs) sub \<or> includes_str xs sub)"

text \<open>
  What \<^verbatim>\<open>fetch\<close> and \<^verbatim>\<open>res.json()\<close> deliver: \<^verbatim>\<open>fetch\<close> throws an error with a message,
  or there is a response with \<^verbatim>\<open>ok\<close>, \<^verbatim>\<open>status\<close> and a body on which \<^verbatim>\<open>res.json()\<close>
  (or the first access to the parsed value) throws with a message, or which is a batch.
\<close>

datatype 'r fetch_outcome =
  FetchThrows string
| Response bool nat "string + 'r SignalCryptBatch"

text \<open>
  The mock batch of lines 3764-3801 and 3822-3859; \<open>now\<close> is the ISO time, whose part
  before the first \<^verbatim>\<open>T\<close> is the date, and \<open>mockRest\<close> stands for the constant other fields.
\<close>

definition mockBatch :: "string \<Rightarrow> 'r \<Rightarrow> 'r SignalCryptBatch" where
  "mockBatch now mockRest =
     \<lparr>batchId = ''SC-'' @ takeWhile (\<lambda>c. c \<noteq> CHR ''T'') now,
      preparedAt = now,
      approval = Some \<lparr>status = Some ''PENDING'', approvedBy = [], approvedAt = []\<rparr>,
      rest = mockRest\<rparr>"

definition useMock :: "string \<Rightarrow> 'r \<Rightarrow> 'r sc_state \<Rightarrow> 'r sc_state" where
  "useMock now mockRest sc =
     sc\<lparr>scBatchStorage := Some (mockBatch now mockRest),
        scBatch := Some (mockBatch now mockRest),
        scError := None\<rparr>"

text \<open>Lines 3811-3816: the approval block of a fetched batch before it is stored.\<close>

definition fetchedApproval :: "Approval option \<Rightarrow> Approval" where
  "fetchedApproval a =
     (let approval0 = (case a of
                         Some x \<Rightarrow> x
                       | None \<Rightarrow> \<lparr>status = Some ''PENDING'', approvedBy = [], approvedAt = []\<rparr>)
      in if status approval0 \<noteq> Some ''APPROVED''
         then approval0\<lparr>status := Some ''PENDING'', approvedBy := [], approvedAt := []\<rparr>
         else approval0)"

text \<open>The \<^verbatim>\<open>catch\<close> block (lines 3819-3865).\<close>

definition fetchCatch :: "string \<Rightarrow> 'r \<Rightarrow> string \<Rightarrow> 'r sc_state \<Rightarrow> 'r sc_state" where
  "fetchCatch now mockRest message sc =
     (if includes_str message ''404'' \<or> includes_str message ''Failed to fetch''
      then useMock now mockRest sc
      else sc\<lparr>scError := Some (or_str message ''Failed to fetch batch'')\<rparr>)"

definition fetchSignalCryptBatch ::
  "string \<Rightarrow> 'r \<Rightarrow> 'r fetch_outcome \<Rightarrow> app_state \<Rightarrow> 'r sc_state \<Rightarrow> 'r sc_state" where
  "fetchSignalCryptBatch now mockRest outcome st sc =
     (if isSignalCryptLocked st then sc\<lparr>scError := Some (signalCryptLockReason st)\<rparr>
      else
        (let sc1 = sc\<lparr>scLoading := True, scError := None\<rparr>;
             sc2 =
               (case outcome of
                  FetchThrows message \<Rightarrow> fetchCatch now mockRest message sc1
                | Response ok code body \<Rightarrow>
                    if \<not> ok then
                      (if code = 404 then useMock now mockRest sc1
                       else fetchCatch now mockRest
                              (''Fetch failed: '' @ string_of_nat code) sc1)
                    else
                      (case body of
                         Inl message \<Rightarrow> fetchCatch now mockRest message sc1
                       | Inr batch \<Rightarrow>
                           (let batch' = batch\<lparr>approval := Some (fetchedApproval (approval batch))\<rparr>
                            in sc1\<lparr>scBatchStorage := Some batch', scBatch := Some batch'\<rparr>)))
         in sc2\<lparr>scLoading := False\<rparr>))"

subsection \<open>Concrete states used in the examples\<close>

text \<open>
  The seed projects with their default state and ledger entries, the first project
  selected.
\<close>

definition seedState :: app_state where
  "seedState =
     \<lparr>projects = DEFAULT_PROJECTS, selectedProjectId = ''ark-engine'', energy = Medium,
      tasks = [], logs = [], workMode = Dev, workModeOutputs = [],
      projectState = createDefaultProjectState,
      projectLedger = createDefaultProjectLedger,
      milestones = [], scOutreachSpec = []\<rparr>"

definition emptyData :: ExportData where
  "emptyData =
     \<lparr>data_exportedAt = None, data_selectedProjectId = None, data_energy = None,
      data_projects = None, data_tasks = Falsy, data_logs = Falsy, data_workMode = None,
      data_workModeOutputs = None, data_projectState = None, data_milestones = None,
      data_projectLedger = None, data_outreachAgentSpec = None,
      data_projectStatuses = None\<rparr>"

text \<open>
  \<open>scReady\<close>: the seed state with SignalCrypt selected and its confidence set to 4.
  \<open>arkBuilding\<close>: Ark Engine has confidence 3 and has entered Building; SignalCrypt, whose
  confidence is unset, is selected. \<open>arkBuildingLow\<close>, \<open>arkBuildingReady\<close>: the same with
  SignalCrypt's confidence 2 and 4.
\<close>

definition scReady :: app_state where
  "scReady =
     handleUpdateProjectLedger ''2026-01-01T09:00:00.000Z'' (Set_confidenceScore (Some 4))
       (setSelectedProjectId ''signalcrypt'' seedState)"

definition arkBuilding :: app_state where
  "arkBuilding =
     setSelectedProjectId ''signalcrypt''
       (snd (handleUpdateProjectState ''2026-01-01T09:05:00.000Z'' (Set_stage Building)
          (handleUpdateProjectLedger ''2026-01-01T09:00:00.000Z'' (Set_confidenceScore (Some 3))
             seedState)))"

definition arkBuildingLow :: app_state where
  "arkBuildingLow =
     handleUpdateProjectLedger ''2026-01-01T09:10:00.000Z'' (Set_confidenceScore (Some 2))
       arkBuilding"

definition arkBuildingReady :: app_state where
  "arkBuildingReady =
     handleUpdateProjectLedger ''2026-01-01T09:10:00.000Z'' (Set_confidenceScore (Some 4))
       arkBuilding"

definition signalcryptLow :: app_state where
  "signalcryptLow =
     handleUpdateProjectLedger ''2026-01-01T09:00:00.000Z'' (Set_confidenceScore (Some 2))
       (setSelectedProjectId ''signalcrypt'' seedState)"

text \<open>
  \<open>conflictData\<close>: an import document whose project states put Ark Engine and SignalCrypt
  in Building at once; \<open>importedConflict\<close> is the seed state after importing it.
  \<open>badLogsData\<close>: the document \<^verbatim>\<open>{tasks: [], logs: "not-an-array"}\<close>.
\<close>

definition conflictData :: ExportData where
  "conflictData =
     emptyData\<lparr>data_tasks := Array [], data_logs := Array [],
       data_projectState :=
         Some [(''ark-engine'', \<lparr>stage = Building, blockers = Some [], nextCheckpoint = Some []\<rparr>),
               (''signalcrypt'', \<lparr>stage = Building, blockers = Some [], nextCheckpoint = Some []\<rparr>)]\<rparr>"

definition importedConflict :: app_state where
  "importedConflict = snd (handleImport (Parsed conflictData) seedState)"

definition badLogsData :: ExportData where
  "badLogsData = emptyData\<lparr>data_tasks := Array [], data_logs := NotArray\<rparr>"

text \<open>A server response whose approval block says \<^verbatim>\<open>REJECTED\<close>, and an empty batch panel.\<close>

definition rejectedBatch :: "unit SignalCryptBatch" where
  "rejectedBatch =
     \<lparr>batchId = ''SC-2026-01-01'', preparedAt = ''2026-01-01T08:00:00.000Z'',
      approval = Some \<lparr>status = Some ''REJECTED'', approvedBy = ''server'',
                       approvedAt = ''2026-01-01T08:30:00.000Z''\<rparr>,
      rest = ()\<rparr>"

definition emptyPanel :: "unit sc_state" where
  "emptyPanel = \<lparr>scBatch = None, scLoading = False, scError = None, scBatchStorage = None\<rparr>"

text \<open>
  \<open>importedConflictReady\<close>, \<open>importedConflictLow\<close>: \<open>importedConflict\<close> with the selected
  project's confidence set to 4 and to 2. \<open>indexConflictData\<close>: an import document that puts
  two unknown identifiers in Building, \<^verbatim>\<open>beta\<close> and the array index \<^verbatim>\<open>42\<close>;
  \<open>importedIndexConflict\<close> is the seed state after importing it.
\<close>

definition importedConflictReady :: app_state where
  "importedConflictReady =
     handleUpdateProjectLedger ''2026-01-01T09:30:00.000Z'' (Set_confidenceScore (Some 4))
       importedConflict"

definition importedConflictLow :: app_state where
  "importedConflictLow =
     handleUpdateProjectLedger ''2026-01-01T09:30:00.000Z'' (Set_confidenceScore (Some 2))
       importedConflict"

definition indexConflictData :: ExportData where
  "indexConflictData =
     emptyData\<lparr>data_tasks := Array [], data_logs := Array [],
       data_projectState :=
         Some [(''42'', \<lparr>stage = Building, blockers = Some [], nextCheckpoint = Some []\<rparr>),
               (''beta'', \<lparr>stage = Building, blockers = Some [], nextCheckpoint = Some []\<rparr>)]\<rparr>"

definition importedIndexConflict :: app_state where
  "importedIndexConflict = snd (handleImport (Parsed indexConflictData) seedState)"

section \<open>Properties of the stage and ledger handlers\<close>

subsection \<open>Auxiliary facts\<close>


lemma map_of_insertIndexKey:
  "map_of al k = None \<Longrightarrow> map_of (insertIndexKey n k v al) = (map_of al)(k \<mapsto> v)"
proof (induction al)
  case Nil
  then show ?case by simp
next
  case (Cons p ps)
  then have "fst p \<noteq> k" and "map_of ps k = None"
    by (auto split: if_splits)
  with Cons.IH show ?case
    by (cases p) (auto simp: fun_eq_iff split: option.splits)
qed

lemma map_of_setProperty:
  "map_of (setProperty k v al) = (map_of al)(k \<mapsto> v)"
  by (simp add: setProperty_def hasOwn_def update_conv' map_of_insertIndexKey
      split: option.splits)

lemma keys_insertIndexKey:
  "set (map fst (insertIndexKey n k v al)) = insert k (set (map fst al))"
  by (induction al) (auto split: option.splits)

lemma distinct_insertIndexKey:
  "k \<notin> set (map fst al) \<Longrightarrow> distinct (map fst al) \<Longrightarrow>
   distinct (map fst (insertIndexKey n k v al))"
proof (induction al)
  case Nil
  then show ?case by simp
next
  case (Cons p ps)
  then show ?case
    using keys_insertIndexKey [of n k v ps]
    by (auto split: option.splits)
qed

lemma distinct_setProperty:
  assumes "distinct (map fst al)"
  shows "distinct (map fst (setProperty k v al))"
proof (cases "hasOwn al k")
  case True
  with assms show ?thesis
    by (simp add: setProperty_def distinct_update split: option.splits)
next
  case False
  then have "k \<notin> set (map fst al)"
    by (simp add: hasOwn_def map_of_eq_None_iff)
  with assms False show ?thesis
    by (simp add: setProperty_def distinct_update distinct_insertIndexKey split: option.splits)
qed

lemma set_insertIndexKey:
  "set (insertIndexKey n k v xs) = insert (k, v) (set xs)"
  by (induction xs) (auto split: option.splits)

lemma set_update_subset:
  "set (AList.update k v xs) \<subseteq> insert (k, v) (set xs)"
  by (induction xs) auto

lemma set_setProperty_subset:
  "set (setProperty k v xs) \<subseteq> insert (k, v) (set xs)"
  using set_update_subset [of k v xs]
  by (simp add: setProperty_def set_insertIndexKey split: option.splits)

lemma filter_insertIndexKey:
  "length (filter P (insertIndexKey n k v xs)) = length (filter P ((k, v) # xs))"
  by (induction xs) (auto split: option.splits)

lemma filter_update_not_P:
  "\<not> Q v \<Longrightarrow>
   length (filter (\<lambda>e. Q (snd e)) (AList.update k v xs)) \<le> length (filter (\<lambda>e. Q (snd e)) xs)"
  by (induction xs) auto

lemma filter_setProperty_not_P:
  "\<not> Q v \<Longrightarrow>
   length (filter (\<lambda>e. Q (snd e)) (setProperty k v xs)) \<le> length (filter (\<lambda>e. Q (snd e)) xs)"
  using filter_update_not_P [of Q v k xs]
  by (simp add: setProperty_def filter_insertIndexKey split: option.splits)

lemma filter_update_was_P:
  "map_of xs k = Some s \<Longrightarrow> Q s \<Longrightarrow>
   length (filter (\<lambda>e. Q (snd e)) (AList.update k v xs)) \<le> length (filter (\<lambda>e. Q (snd e)) xs)"
  by (induction xs) (auto split: if_splits)

lemma filter_setProperty_was_P:
  "map_of xs k = Some s \<Longrightarrow> Q s \<Longrightarrow>
   length (filter (\<lambda>e. Q (snd e)) (setProperty k v xs)) \<le> length (filter (\<lambda>e. Q (snd e)) xs)"
  using filter_update_was_P [of xs k s Q v]
  by (simp add: setProperty_def hasOwn_def split: option.splits)

lemma update_insertIndexKey:
  "map_of al k = None \<Longrightarrow> AList.update k v (insertIndexKey n k v' al) = insertIndexKey n k v al"
proof (induction al)
  case Nil
  then show ?case by simp
next
  case (Cons p ps)
  then have "fst p \<noteq> k" and "map_of ps k = None"
    by (auto split: if_splits)
  with Cons.IH show ?case
    by (auto split: option.splits)
qed

lemma setProperty_twice:
  "setProperty k v (setProperty k v' al) = setProperty k v al"
proof -
  have own: "hasOwn (setProperty k v' al) k"
    by (simp add: hasOwn_def map_of_setProperty)
  show ?thesis
  proof (cases "arrayIndex k")
    case None
    then show ?thesis by (simp add: setProperty_def)
  next
    case (Some n)
    show ?thesis
    proof (cases "hasOwn al k")
      case True
      with Some own show ?thesis
        by (simp add: setProperty_def hasOwn_def update_conv')
    next
      case False
      then have "map_of al k = None" by (simp add: hasOwn_def)
      then have "AList.update k v (insertIndexKey n k v' al) = insertIndexKey n k v al"
        by (rule update_insertIndexKey)
      moreover have "hasOwn (insertIndexKey n k v' al) k"
        using own Some False by (simp add: setProperty_def)
      ultimately show ?thesis
        using Some False by (simp add: setProperty_def)
    qed
  qed
qed

lemma default_ledger_unset:
  "map_of createDefaultProjectLedger k = Some l \<Longrightarrow> confidenceScore l = None"
  by (auto simp: createDefaultProjectLedger_def emptyLedger_def dest!: map_of_SomeD)

lemma confidenceScore'_own:
  "confidenceScore' st =
     (case map_of (projectLedger st) (selectedProjectId st) of
        None \<Rightarrow> None | Some l \<Rightarrow> confidenceScore l)"
  by (auto simp: confidenceScore'_def currentProjectLedger_def emptyLedger_def
      dest: default_ledger_unset split: option.splits)

lemma join_butlast:
  "names \<noteq> [] \<Longrightarrow> join sep names = concat (map (\<lambda>n. n @ sep) (butlast names)) @ last names"
  by (induction sep names rule: join.induct) simp_all

lemma concat_names_contains:
  "n \<in> set names \<Longrightarrow>
   \<exists>pre post. concat (map (\<lambda>n. n @ sep) (butlast names)) @ last names = pre @ n @ post"
proof (induction names)
  case Nil
  then show ?case by simp
next
  case (Cons a as)
  show ?case
  proof (cases "as = []")
    case True
    with Cons.prems have "n = a" by simp
    with True have "concat (map (\<lambda>n. n @ sep) (butlast (a # as))) @ last (a # as) = [] @ n @ []"
      by simp
    then show ?thesis by blast
  next
    case False
    show ?thesis
    proof (cases "n = a")
      case True
      with False have "concat (map (\<lambda>n. n @ sep) (butlast (a # as))) @ last (a # as)
          = [] @ n @ (sep @ concat (map (\<lambda>n. n @ sep) (butlast as)) @ last as)"
        by simp
      then show ?thesis by blast
    next
      case nea: False
      with Cons.prems have "n \<in> set as" by simp
      from Cons.IH [OF this] obtain pre post
        where "concat (map (\<lambda>n. n @ sep) (butlast as)) @ last as = pre @ n @ post" by blast
      with False have "concat (map (\<lambda>n. n @ sep) (butlast (a # as))) @ last (a # as)
          = (a @ sep @ pre) @ n @ post"
        by simp
      then show ?thesis by blast
    qed
  qed
qed

lemma projectDisplayName_find:
  "projectDisplayName ps q =
     (case find (\<lambda>p. project_id p = q) ps of
        Some p \<Rightarrow> if name p \<noteq> [] then name p else q | None \<Rightarrow> q)"
  by (simp add: projectDisplayName_def or_str_def split: option.splits)

lemma projectState_touchLedgerUpdate:
  "projectState (touchLedgerUpdate now st) = projectState st"
  by (simp add: touchLedgerUpdate_def Let_def)

lemma selectedProjectId_touchLedgerUpdate:
  "selectedProjectId (touchLedgerUpdate now st) = selectedProjectId st"
  by (simp add: touchLedgerUpdate_def Let_def)

lemma projectLedger_touchLedgerUpdate:
  "projectLedger (touchLedgerUpdate now st) =
     setProperty (selectedProjectId st) ((currentProjectLedger st)\<lparr>lastUpdated := now\<rparr>)
       (projectLedger st)"
  by (simp add: touchLedgerUpdate_def currentProjectLedger_def Let_def split: option.splits)

lemma currentProjectLedger_projectState_update:
  "currentProjectLedger (st\<lparr>projectState := ps\<rparr>) = currentProjectLedger st"
  by (simp add: currentProjectLedger_def currentProject_def split: option.splits)

lemma projectState_handleUpdateProjectState:
  "projectState (snd (handleUpdateProjectState now upd st)) =
     (case stageGuard upd st of
        Some msg \<Rightarrow> projectState st
      | None \<Rightarrow> setProperty (selectedProjectId st)
                  (applyProjectStateUpdate upd (currentProjectState st)) (projectState st))"
  by (simp add: handleUpdateProjectState_def projectState_touchLedgerUpdate split: option.splits)

lemma handleUpdateProjectState_rejected:
  "stageGuard upd st = Some msg \<Longrightarrow> handleUpdateProjectState now upd st = (Some msg, st)"
  by (simp add: handleUpdateProjectState_def)

lemma handleUpdateProjectState_accepted:
  "stageGuard upd st = None \<Longrightarrow>
   fst (handleUpdateProjectState now upd st) = None \<and>
   projectState (snd (handleUpdateProjectState now upd st)) =
     setProperty (selectedProjectId st) (applyProjectStateUpdate upd (currentProjectState st))
       (projectState st) \<and>
   projectLedger (snd (handleUpdateProjectState now upd st)) =
     setProperty (selectedProjectId st) ((currentProjectLedger st)\<lparr>lastUpdated := now\<rparr>)
       (projectLedger st)"
  by (simp add: handleUpdateProjectState_def projectState_touchLedgerUpdate
      projectLedger_touchLedgerUpdate currentProjectLedger_projectState_update)

lemma confidence_guard:
  "(nextStage = Building \<or> nextStage = Shipping) \<Longrightarrow>
   (case confidenceScore' st of None \<Rightarrow> True | Some c \<Rightarrow> c < 3) \<Longrightarrow>
   stageGuard (Set_stage nextStage) st = Some confidenceAlert"
  by (auto simp: stageGuard_def isConfidenceLow_def isConfidenceUnset_def split: option.splits)

lemma other_Building_guard:
  assumes "(q, s) \<in> set (projectState st)" "q \<noteq> selectedProjectId st" "stage s = Building"
  shows "stageGuard (Set_stage Building) st \<noteq> None"
proof -
  from assms have "q \<in> set (filter (\<lambda>projectId. projectId \<noteq> selectedProjectId st) (buildingProjectIds st))"
    by (force simp: buildingProjectIds_def)
  then have "filter (\<lambda>projectId. projectId \<noteq> selectedProjectId st) (buildingProjectIds st) \<noteq> []"
    by (metis empty_iff empty_set)
  then show ?thesis
    by (simp add: stageGuard_def)
qed

lemma filter_keyed_le_one:
  "distinct (map fst xs) \<Longrightarrow> \<forall>e\<in>set xs. P e \<longrightarrow> fst e = k \<Longrightarrow> length (filter P xs) \<le> Suc 0"
proof (induction xs)
  case Nil
  then show ?case by simp
next
  case (Cons x xs)
  show ?case
  proof (cases "P x")
    case False
    with Cons show ?thesis by simp
  next
    case True
    with Cons.prems have kx: "fst x = k" by simp
    have "filter P xs = []"
    proof (rule ccontr)
      assume "filter P xs \<noteq> []"
      then obtain e where e: "e \<in> set xs" "P e"
        by (metis filter_False)
      with Cons.prems have "fst e = k" by simp
      with e(1) kx have "fst x \<in> fst ` set xs" by (metis image_eqI)
      with Cons.prems(1) show False by simp
    qed
    with True show ?thesis by simp
  qed
qed

lemma stageGuard_Building_None:
  assumes "stageGuard (Set_stage Building) st = None"
    and "e \<in> set (projectState st)" and "stage (snd e) = Building"
  shows "fst e = selectedProjectId st"
proof (rule ccontr)
  assume "fst e \<noteq> selectedProjectId st"
  with assms(2,3) have "fst e \<in> set (filter (\<lambda>projectId. projectId \<noteq> selectedProjectId st) (buildingProjectIds st))"
    by (force simp: buildingProjectIds_def)
  then have "filter (\<lambda>projectId. projectId \<noteq> selectedProjectId st) (buildingProjectIds st) \<noteq> []"
    by (metis empty_iff empty_set)
  with assms(1) show False
    by (simp add: stageGuard_def split: if_splits)
qed

lemma handleUpdateProjectState_distinct:
  "distinct (map fst (projectState st)) \<Longrightarrow>
   distinct (map fst (projectState (snd (handleUpdateProjectState now upd st))))"
  by (simp add: projectState_handleUpdateProjectState distinct_setProperty split: option.splits)

lemma handleUpdateProjectState_no_conflict:
  assumes d: "distinct (map fst (projectState st))"
    and le: "length (buildingProjectIds st) \<le> Suc 0"
  shows "length (buildingProjectIds (snd (handleUpdateProjectState now upd st))) \<le> Suc 0"
proof (cases "stageGuard upd st")
  case (Some msg)
  with le show ?thesis
    by (simp add: buildingProjectIds_def projectState_handleUpdateProjectState)
next
  case None
  let ?v = "applyProjectStateUpdate upd (currentProjectState st)"
  let ?k = "selectedProjectId st"
  have ps: "projectState (snd (handleUpdateProjectState now upd st)) = setProperty ?k ?v (projectState st)"
    using None by (simp add: projectState_handleUpdateProjectState)
  show ?thesis
  proof (cases "stage ?v = Building")
    case False
    then have "length (filter (\<lambda>e. stage (snd e) = Building) (setProperty ?k ?v (projectState st)))
        \<le> length (filter (\<lambda>e. stage (snd e) = Building) (projectState st))"
      by (rule filter_setProperty_not_P [where Q = "\<lambda>s. stage s = Building"])
    with le show ?thesis by (simp add: buildingProjectIds_def ps)
  next
    case True
    show ?thesis
    proof (cases "upd = Set_stage Building")
      case True
      have "\<forall>e\<in>set (setProperty ?k ?v (projectState st)). stage (snd e) = Building \<longrightarrow> fst e = ?k"
      proof (intro ballI impI)
        fix e assume e: "e \<in> set (setProperty ?k ?v (projectState st))" "stage (snd e) = Building"
        from e(1) set_setProperty_subset have "e = (?k, ?v) \<or> e \<in> set (projectState st)" by fastforce
        then show "fst e = ?k"
          using stageGuard_Building_None [of st e] None True e(2) by auto
      qed
      moreover have "distinct (map fst (setProperty ?k ?v (projectState st)))"
        using d by (rule distinct_setProperty)
      ultimately have "length (filter (\<lambda>e. stage (snd e) = Building) (setProperty ?k ?v (projectState st))) \<le> Suc 0"
        by (rule filter_keyed_le_one [rotated])
      then show ?thesis by (simp add: buildingProjectIds_def ps)
    next
      case False
      with \<open>stage ?v = Building\<close> have cur: "stage (currentProjectState st) = Building"
        by (cases upd) auto
      then obtain s where s: "map_of (projectState st) ?k = Some s" "stage s = Building"
        by (auto simp: currentProjectState_def split: option.splits)
      have "length (filter (\<lambda>e. stage (snd e) = Building) (setProperty ?k ?v (projectState st)))
        \<le> length (filter (\<lambda>e. stage (snd e) = Building) (projectState st))"
        using s by (rule filter_setProperty_was_P [where Q = "\<lambda>s. stage s = Building"])
      with le show ?thesis by (simp add: buildingProjectIds_def ps)
    qed
  qed
qed

lemma stageChangeRequests_invariant:
  "distinct (map fst (projectState st)) \<Longrightarrow> length (buildingProjectIds st) \<le> Suc 0 \<Longrightarrow>
   distinct (map fst (projectState (stageChangeRequests rs st))) \<and>
   length (buildingProjectIds (stageChangeRequests rs st)) \<le> Suc 0"
proof (induction rs arbitrary: st)
  case Nil
  then show ?case by simp
next
  case (Cons r rs)
  obtain p s now where r: "r = (p, s, now)" by (cases r)
  let ?st = "setSelectedProjectId p st"
  have d: "distinct (map fst (projectState ?st))"
    and le: "length (buildingProjectIds ?st) \<le> Suc 0"
    using Cons.prems by (simp_all add: setSelectedProjectId_def buildingProjectIds_def)
  show ?case
    unfolding r stageChangeRequests.simps
    by (rule Cons.IH [OF handleUpdateProjectState_distinct [OF d]
          handleUpdateProjectState_no_conflict [OF d le]])
qed

lemma buildingProjectIds_set:
  "set (buildingProjectIds st) = {q. \<exists>s. (q, s) \<in> set (projectState st) \<and> stage s = Building}"
  by (force simp: buildingProjectIds_def)

lemma handleUpdateProjectLedger_lookup:
  "map_of (projectLedger (handleUpdateProjectLedger now upd st)) (selectedProjectId st)
     = Some ((applyProjectLedgerUpdate upd (currentProjectLedger st))\<lparr>lastUpdated := now\<rparr>)"
  by (simp add: handleUpdateProjectLedger_def currentProjectLedger_def Let_def map_of_setProperty
      split: option.splits)

lemma not_truthy_not_isArray: "\<not> truthy f \<Longrightarrow> \<not> isArray f"
  by (cases f) simp_all

lemma fetchedApproval_status:
  "status (fetchedApproval a) =
     (if \<exists>x. a = Some x \<and> status x = Some ''APPROVED'' then Some ''APPROVED''
      else Some ''PENDING'')"
  by (cases a) (auto simp: fetchedApproval_def Let_def)

lemma fetchedApproval_pending:
  "status (fetchedApproval a) \<noteq> Some ''APPROVED'' \<Longrightarrow>
   fetchedApproval a = \<lparr>status = Some ''PENDING'', approvedBy = [], approvedAt = []\<rparr>"
  by (cases a) (auto simp: fetchedApproval_def Let_def split: if_splits)

subsection \<open>The single Building project\<close>

text \<open>
  Claim C1. From a state in which at most one project is in Building, any sequence of
  stage-change requests (each on any project, for any stage, at any time) leads to a state
  in which at most one project is in Building. The project states are the entries of a
  JavaScript object, so their keys are distinct.
\<close>

theorem no_second_Building:
  assumes "distinct (map fst (projectState st))"
    and "length (buildingProjectIds st) \<le> 1"
  shows "length (buildingProjectIds (stageChangeRequests rs st)) \<le> 1"
  using stageChangeRequests_invariant [of st rs] assms by simp

text \<open>
  An instance: Ark Engine is in Building and SignalCrypt has confidence 4. SignalCrypt's
  request for Building is refused, Ark Engine is paused, and SignalCrypt's second request
  is accepted: SignalCrypt is then the one project in Building.
\<close>

theorem no_second_Building_witness:
  "distinct (map fst (projectState arkBuildingReady))
   \<and> length (buildingProjectIds arkBuildingReady) \<le> 1
   \<and> length (buildingProjectIds (stageChangeRequests
         [(''signalcrypt'', Building, ''2026-01-01T09:20:00.000Z''),
          (''ark-engine'', Paused, ''2026-01-01T09:21:00.000Z''),
          (''signalcrypt'', Building, ''2026-01-01T09:22:00.000Z'')] arkBuildingReady)) \<le> 1"
proof -
  have d: "distinct (map fst (projectState arkBuildingReady))" by code_simp
  have l: "length (buildingProjectIds arkBuildingReady) \<le> 1" by code_simp
  from d l no_second_Building [OF d l, of
         "[(''signalcrypt'', Building, ''2026-01-01T09:20:00.000Z''),
          (''ark-engine'', Paused, ''2026-01-01T09:21:00.000Z''),
          (''signalcrypt'', Building, ''2026-01-01T09:22:00.000Z'')]"]
  show ?thesis by (intro conjI)
qed

text \<open>
  The run of this instance, evaluated: the first request leaves Ark Engine as the project
  in Building, the last one puts SignalCrypt there.
\<close>

lemma stageChangeRequests_example:
  "buildingProjectIds (stageChangeRequests
     [(''signalcrypt'', Building, ''2026-01-01T09:20:00.000Z'')] arkBuildingReady)
     = [''ark-engine'']
   \<and> buildingProjectIds (stageChangeRequests
         [(''signalcrypt'', Building, ''2026-01-01T09:20:00.000Z''),
          (''ark-engine'', Paused, ''2026-01-01T09:21:00.000Z''),
          (''signalcrypt'', Building, ''2026-01-01T09:22:00.000Z'')] arkBuildingReady)
     = [''signalcrypt'']"
  by code_simp

subsection \<open>The execution lock\<close>

text \<open>
  Claim C2. The messages of the execution lock are, in this order: if more than one entry
  of the project states has stage Building, the conflict message, which is the text
  "Multiple projects in Building: " followed by the names of all those projects, in the
  order of the entries and separated by ", " (the name of a project is the non-empty name
  of the first project with that identifier, and else the identifier itself); then one
  message on the confidence score stored in the selected project's ledger entry: "not set"
  if the entry is missing or its score is null, and else "below 3" if the score is less
  than 3. Every project in Building is named in the conflict message. Execution is blocked
  exactly when there is a conflict or the score is null or below 3, and the list of
  messages is empty exactly when execution is not blocked.
\<close>

theorem executionBlockMessages_order:
  "let building = filter (\<lambda>e. stage (snd e) = Building) (projectState st);
       names = map (\<lambda>q. case find (\<lambda>p. project_id p = q) (projects st) of
                           Some p \<Rightarrow> if name p \<noteq> [] then name p else q
                         | None \<Rightarrow> q) (map fst building);
       score = (case map_of (projectLedger st) (selectedProjectId st) of
                  None \<Rightarrow> None | Some l \<Rightarrow> confidenceScore l)
   in executionBlockMessages st =
        (if 1 < length building
         then [''Multiple projects in Building: ''
                 @ concat (map (\<lambda>n. n @ '', '') (butlast names)) @ last names]
         else [])
        @ (case score of
             None \<Rightarrow> [''Confidence score is not set for this project'']
           | Some c \<Rightarrow>
               if c < 3 then [''Confidence score is below 3 for this project''] else [])
      \<and> (\<forall>n\<in>set names. 1 < length building \<longrightarrow>
            (\<exists>pre post. hd (executionBlockMessages st)
               = ''Multiple projects in Building: '' @ pre @ n @ post))
      \<and> (isExecutionBlocked st \<longleftrightarrow>
            1 < length building \<or> score = None \<or> (\<exists>c. score = Some c \<and> c < 3))
      \<and> (executionBlockMessages st = [] \<longleftrightarrow> \<not> isExecutionBlocked st)"
proof -
  define building where "building = filter (\<lambda>e. stage (snd e) = Building) (projectState st)"
  define names where "names = map (\<lambda>q. case find (\<lambda>p. project_id p = q) (projects st) of
                           Some p \<Rightarrow> if name p \<noteq> [] then name p else q
                         | None \<Rightarrow> q) (map fst building)"
  define score where "score = (case map_of (projectLedger st) (selectedProjectId st) of
                  None \<Rightarrow> None | Some l \<Rightarrow> confidenceScore l)"
  have ids: "buildingProjectIds st = map fst building"
    by (simp add: buildingProjectIds_def building_def)
  have nm: "buildingProjectNames st = names"
    by (simp add: buildingProjectNames_def ids names_def projectDisplayName_find)
  have sc: "confidenceScore' st = score"
    by (simp add: confidenceScore'_own score_def)
  have conflict: "hasBuildingConflict st \<longleftrightarrow> 1 < length building"
    by (simp add: hasBuildingConflict_def ids)
  have nonempty: "names \<noteq> []" if "1 < length building"
    using that by (auto simp: names_def)
  have msgs: "executionBlockMessages st =
        (if 1 < length building
         then [''Multiple projects in Building: ''
                 @ concat (map (\<lambda>n. n @ '', '') (butlast names)) @ last names]
         else [])
        @ (case score of
             None \<Rightarrow> [''Confidence score is not set for this project'']
           | Some c \<Rightarrow>
               if c < 3 then [''Confidence score is below 3 for this project''] else [])"
    using nonempty
    by (simp add: executionBlockMessages_def conflict nm buildingConflictMessage_def
        join_butlast isConfidenceUnset_def isConfidenceLow_def sc split: option.splits)
  have named: "\<exists>pre post. hd (executionBlockMessages st)
               = ''Multiple projects in Building: '' @ pre @ n @ post"
    if "n \<in> set names" and "1 < length building" for n
  proof -
    from concat_names_contains [OF that(1), of "'', ''"] obtain pre post
      where "concat (map (\<lambda>n. n @ '', '') (butlast names)) @ last names = pre @ n @ post"
      by blast
    with that(2) have "hd (executionBlockMessages st)
        = ''Multiple projects in Building: '' @ pre @ n @ post"
      by (simp add: msgs)
    then show ?thesis by blast
  qed
  have blocked: "isExecutionBlocked st \<longleftrightarrow>
            1 < length building \<or> score = None \<or> (\<exists>c. score = Some c \<and> c < 3)"
    by (auto simp: isExecutionBlocked_def conflict isConfidenceUnset_def isConfidenceLow_def sc
        split: option.splits)
  have empty: "executionBlockMessages st = [] \<longleftrightarrow> \<not> isExecutionBlocked st"
    by (simp add: executionBlockMessages_def isExecutionBlocked_def)
  from msgs named blocked empty show ?thesis
    unfolding Let_def building_def [symmetric] names_def [symmetric] score_def [symmetric]
    by blast
qed

text \<open>
  Instances. After an import that puts Ark Engine and SignalCrypt in Building, the lock of
  the selected project (Ark Engine, no score) reports the conflict first, naming both, then
  the unset confidence; with its score set to 4 the conflict alone, with 2 the conflict and
  then the low confidence. After an import of the unknown identifiers \<^verbatim>\<open>beta\<close> and \<^verbatim>\<open>42\<close> in
  Building, the array index \<^verbatim>\<open>42\<close> comes first among the entries and in the message.
  Without a conflict, SignalCrypt with score 2 has the one message on low confidence, and
  with score 4 no message and no lock.
\<close>

theorem executionBlockMessages_order_witness:
  "executionBlockMessages importedConflict =
     [''Multiple projects in Building: Ark Engine (Core), SignalCrypt'',
      ''Confidence score is not set for this project'']
   \<and> isExecutionBlocked importedConflict
   \<and> executionBlockMessages importedConflictReady =
       [''Multiple projects in Building: Ark Engine (Core), SignalCrypt'']
   \<and> isExecutionBlocked importedConflictReady
   \<and> executionBlockMessages importedConflictLow =
       [''Multiple projects in Building: Ark Engine (Core), SignalCrypt'',
        ''Confidence score is below 3 for this project'']
   \<and> executionBlockMessages importedIndexConflict =
       [''Multiple projects in Building: 42, beta'',
        ''Confidence score is not set for this project'']
   \<and> executionBlockMessages signalcryptLow = [''Confidence score is below 3 for this project'']
   \<and> isExecutionBlocked signalcryptLow
   \<and> executionBlockMessages scReady = []
   \<and> \<not> isExecutionBlocked scReady"
proof -
  have b1: "length (filter (\<lambda>e. stage (snd e) = Building) (projectState importedConflict)) = 2"
    by code_simp
  have n1: "map (\<lambda>q. case find (\<lambda>p. project_id p = q) (projects importedConflict) of
                        Some p \<Rightarrow> if name p \<noteq> [] then name p else q | None \<Rightarrow> q)
               (map fst (filter (\<lambda>e. stage (snd e) = Building) (projectState importedConflict)))
             = [''Ark Engine (Core)'', ''SignalCrypt'']"
    by code_simp
  have s1: "map_option confidenceScore
               (map_of (projectLedger importedConflict) (selectedProjectId importedConflict)) = Some None"
    by code_simp
  have c1: "(case map_of (projectLedger importedConflict) (selectedProjectId importedConflict) of
               None \<Rightarrow> None | Some l \<Rightarrow> confidenceScore l) = None"
    using s1 by (auto split: option.splits)
  note t1 = executionBlockMessages_order [of importedConflict, unfolded Let_def b1 n1 c1]
  have b2: "length (filter (\<lambda>e. stage (snd e) = Building) (projectState importedConflictReady)) = 2"
    by code_simp
  have n2: "map (\<lambda>q. case find (\<lambda>p. project_id p = q) (projects importedConflictReady) of
                        Some p \<Rightarrow> if name p \<noteq> [] then name p else q | None \<Rightarrow> q)
               (map fst (filter (\<lambda>e. stage (snd e) = Building) (projectState importedConflictReady)))
             = [''Ark Engine (Core)'', ''SignalCrypt'']"
    by code_simp
  have s2: "map_option confidenceScore
               (map_of (projectLedger importedConflictReady) (selectedProjectId importedConflictReady)) = Some (Some 4)"
    by code_simp
  have c2: "(case map_of (projectLedger importedConflictReady) (selectedProjectId importedConflictReady) of
               None \<Rightarrow> None | Some l \<Rightarrow> confidenceScore l) = Some 4"
    using s2 by (auto split: option.splits)
  note t2 = executionBlockMessages_order [of importedConflictReady, unfolded Let_def b2 n2 c2]
  have b3: "length (filter (\<lambda>e. stage (snd e) = Building) (projectState importedConflictLow)) = 2"
    by code_simp
  have n3: "map (\<lambda>q. case find (\<lambda>p. project_id p = q) (projects importedConflictLow) of
                        Some p \<Rightarrow> if name p \<noteq> [] then name p else q | None \<Rightarrow> q)
               (map fst (filter (\<lambda>e. stage (snd e) = Building) (projectState importedConflictLow)))
             = [''Ark Engine (Core)'', ''SignalCrypt'']"
    by code_simp
  have s3: "map_option confidenceScore
               (map_of (projectLedger importedConflictLow) (selectedProjectId importedConflictLow)) = Some (Some 2)"
    by code_simp
  have c3: "(case map_of (projectLedger importedConflictLow) (selectedProjectId importedConflictLow) of
               None \<Rightarrow> None | Some l \<Rightarrow> confidenceScore l) = Some 2"
    using s3 by (auto split: option.splits)
  note t3 = executionBlockMessages_order [of importedConflictLow, unfolded Let_def b3 n3 c3]
  have b4: "length (filter (\<lambda>e. stage (snd e) = Building) (projectState importedIndexConflict)) = 2"
    by code_simp
  have n4: "map (\<lambda>q. case find (\<lambda>p. project_id p = q) (projects importedIndexConflict) of
                        Some p \<Rightarrow> if name p \<noteq> [] then name p else q | None \<Rightarrow> q)
               (map fst (filter (\<lambda>e. stage (snd e) = Building) (projectState importedIndexConflict)))
             = [''42'', ''beta'']"
    by code_simp
  have s4: "map_option confidenceScore
               (map_of (projectLedger importedIndexConflict) (selectedProjectId importedIndexConflict)) = Some None"
    by code_simp
  have c4: "(case map_of (projectLedger importedIndexConflict) (selectedProjectId importedIndexConflict) of
               None \<Rightarrow> None | Some l \<Rightarrow> confidenceScore l) = None"
    using s4 by (auto split: option.splits)
  note t4 = executionBlockMessages_order [of importedIndexConflict, unfolded Let_def b4 n4 c4]
  have b5: "length (filter (\<lambda>e. stage (snd e) = Building) (projectState signalcryptLow)) = 0"
    by code_simp
  have s5: "map_option confidenceScore
               (map_of (projectLedger signalcryptLow) (selectedProjectId signalcryptLow)) = Some (Some 2)"
    by code_simp
  have c5: "(case map_of (projectLedger signalcryptLow) (selectedProjectId signalcryptLow) of
               None \<Rightarrow> None | Some l \<Rightarrow> confidenceScore l) = Some 2"
    using s5 by (auto split: option.splits)
  note t5 = executionBlockMessages_order [of signalcryptLow, unfolded Let_def b5  c5]
  have b6: "length (filter (\<lambda>e. stage (snd e) = Building) (projectState scReady)) = 0"
    by code_simp
  have s6: "map_option confidenceScore
               (map_of (projectLedger scReady) (selectedProjectId scReady)) = Some (Some 4)"
    by code_simp
  have c6: "(case map_of (projectLedger scReady) (selectedProjectId scReady) of
               None \<Rightarrow> None | Some l \<Rightarrow> confidenceScore l) = Some 4"
    using s6 by (auto split: option.splits)
  note t6 = executionBlockMessages_order [of scReady, unfolded Let_def b6  c6]
  have e1: "executionBlockMessages importedConflict =
     [''Multiple projects in Building: Ark Engine (Core), SignalCrypt'',
      ''Confidence score is not set for this project'']"
    using t1 [THEN conjunct1] by simp
  have l1: "isExecutionBlocked importedConflict"
    using t1 [THEN conjunct2, THEN conjunct2, THEN conjunct1] by simp
  have e2: "executionBlockMessages importedConflictReady =
       [''Multiple projects in Building: Ark Engine (Core), SignalCrypt'']"
    using t2 [THEN conjunct1] by simp
  have l2: "isExecutionBlocked importedConflictReady"
    using t2 [THEN conjunct2, THEN conjunct2, THEN conjunct1] by simp
  have e3: "executionBlockMessages importedConflictLow =
       [''Multiple projects in Building: Ark Engine (Core), SignalCrypt'',
        ''Confidence score is below 3 for this project'']"
    using t3 [THEN conjunct1] by simp
  have e4: "executionBlockMessages importedIndexConflict =
       [''Multiple projects in Building: 42, beta'',
        ''Confidence score is not set for this project'']"
    using t4 [THEN conjunct1] by simp
  have e5: "executionBlockMessages signalcryptLow
       = [''Confidence score is below 3 for this project'']"
    using t5 [THEN conjunct1] by simp
  have l5: "isExecutionBlocked signalcryptLow"
    using t5 [THEN conjunct2, THEN conjunct2, THEN conjunct1] by simp
  have e6: "executionBlockMessages scReady = []"
    using t6 [THEN conjunct1] by simp
  have l6: "\<not> isExecutionBlocked scReady"
    using t6 [THEN conjunct2, THEN conjunct2, THEN conjunct1] by simp
  from e1 l1 e2 l2 e3 e4 e5 l5 e6 l6 show ?thesis by (intro conjI)
qed

subsection \<open>Refused stage changes\<close>

text \<open>
  Claim C3 as stated fails: Ark Engine is in Building, SignalCrypt is selected and has no
  confidence score; its request for Building is refused with the confidence alert, which
  is not the Building alert.
\<close>

theorem other_Building_unset_confidence_counterexample:
  "(''ark-engine'', \<lparr>stage = Building, blockers = Some [], nextCheckpoint = Some []\<rparr>)
      \<in> set (projectState arkBuilding)
   \<and> ''ark-engine'' \<noteq> selectedProjectId arkBuilding
   \<and> confidenceScore' arkBuilding = None
   \<and> fst (handleUpdateProjectState ''2026-01-01T09:20:00.000Z'' (Set_stage Building) arkBuilding)
       = Some confidenceAlert
   \<and> confidenceAlert \<noteq> buildingAlert"
  by code_simp

text \<open>
  Claim C3, amended. If a project other than the selected one is in Building, a request to
  move the selected project into Building is refused and the state is unchanged; the alert
  is the confidence alert when the selected project's confidence is null or below 3 (that
  guard comes first), and the Building alert otherwise.
\<close>

theorem other_Building_rejected:
  assumes "(q, s) \<in> set (projectState st)" and "q \<noteq> selectedProjectId st"
    and "stage s = Building"
  shows "handleUpdateProjectState now (Set_stage Building) st =
     (Some (case confidenceScore' st of
              None \<Rightarrow> confidenceAlert
            | Some c \<Rightarrow> if c < 3 then confidenceAlert else buildingAlert), st)"
proof -
  from other_Building_guard [OF assms] obtain msg
    where g: "stageGuard (Set_stage Building) st = Some msg" by auto
  then have "msg = (case confidenceScore' st of
              None \<Rightarrow> confidenceAlert
            | Some c \<Rightarrow> if c < 3 then confidenceAlert else buildingAlert)"
    by (auto simp: stageGuard_def isConfidenceLow_def isConfidenceUnset_def
        split: option.splits if_splits)
  with g show ?thesis by (simp add: handleUpdateProjectState_rejected)
qed

theorem other_Building_rejected_witness:
  "(''ark-engine'', \<lparr>stage = Building, blockers = Some [], nextCheckpoint = Some []\<rparr>)
      \<in> set (projectState arkBuildingReady)
   \<and> ''ark-engine'' \<noteq> selectedProjectId arkBuildingReady
   \<and> confidenceScore' arkBuildingReady = Some 4
   \<and> handleUpdateProjectState ''2026-01-01T09:20:00.000Z'' (Set_stage Building) arkBuildingReady
       = (Some buildingAlert, arkBuildingReady)"
proof -
  have m: "(''ark-engine'', \<lparr>stage = Building, blockers = Some [], nextCheckpoint = Some []\<rparr>)
      \<in> set (projectState arkBuildingReady)" by code_simp
  have n: "''ark-engine'' \<noteq> selectedProjectId arkBuildingReady" by code_simp
  have c: "confidenceScore' arkBuildingReady = Some 4" by code_simp
  from other_Building_rejected [OF m n, of "''2026-01-01T09:20:00.000Z''"] m n c show ?thesis by simp
qed

text \<open>
  Claim C4 as stated fails: the handler has one alert for both cases. SignalCrypt with no
  confidence score and SignalCrypt with confidence 2 get the same alert on a request for
  Building.
\<close>

theorem confidence_reason_counterexample:
  "confidenceScore' (setSelectedProjectId ''signalcrypt'' seedState) = None
   \<and> confidenceScore' signalcryptLow = Some 2
   \<and> fst (handleUpdateProjectState ''2026-01-01T09:20:00.000Z'' (Set_stage Building)
            (setSelectedProjectId ''signalcrypt'' seedState))
       = fst (handleUpdateProjectState ''2026-01-01T09:20:00.000Z'' (Set_stage Building)
            signalcryptLow)"
  by code_simp

text \<open>
  Claim C4, amended. If the selected project's confidence is null or below 3, a request to
  move it into Building or Shipping is refused with the alert
  "Confidence must be 3+ to move into Building or Shipping." in both cases, and the state,
  the project's stage included, is unchanged.
\<close>

theorem low_confidence_rejected:
  assumes "nextStage = Building \<or> nextStage = Shipping"
    and "confidenceScore' st = None \<or> (\<exists>c. confidenceScore' st = Some c \<and> c < 3)"
  shows "handleUpdateProjectState now (Set_stage nextStage) st = (Some confidenceAlert, st)"
proof -
  from assms(2) have "case confidenceScore' st of None \<Rightarrow> True | Some c \<Rightarrow> c < 3"
    by auto
  with assms(1) have "stageGuard (Set_stage nextStage) st = Some confidenceAlert"
    by (rule confidence_guard)
  then show ?thesis by (rule handleUpdateProjectState_rejected)
qed

theorem low_confidence_rejected_witness:
  "stage (currentProjectState (setSelectedProjectId ''signalcrypt'' seedState)) = Planning
   \<and> confidenceScore' (setSelectedProjectId ''signalcrypt'' seedState) = None
   \<and> handleUpdateProjectState ''2026-01-01T09:20:00.000Z'' (Set_stage Building)
        (setSelectedProjectId ''signalcrypt'' seedState)
       = (Some confidenceAlert, setSelectedProjectId ''signalcrypt'' seedState)"
proof -
  have p: "stage (currentProjectState (setSelectedProjectId ''signalcrypt'' seedState)) = Planning"
    by code_simp
  have c: "confidenceScore' (setSelectedProjectId ''signalcrypt'' seedState) = None"
    by code_simp
  from c have c': "confidenceScore' (setSelectedProjectId ''signalcrypt'' seedState) = None
      \<or> (\<exists>c. confidenceScore' (setSelectedProjectId ''signalcrypt'' seedState) = Some c \<and> c < 3)"
    by simp
  have b: "Building = Building \<or> Building = Shipping" by simp
  from low_confidence_rejected [OF b c', of "''2026-01-01T09:20:00.000Z''"] p c show ?thesis by simp
qed

subsection \<open>Import\<close>

text \<open>
  Claim C5. A document whose \<^verbatim>\<open>tasks\<close> or \<^verbatim>\<open>logs\<close> is not an array (absent, falsy or
  of another type) is refused with an alert that names the field, and the state is
  unchanged.
\<close>

theorem import_shape_rejected:
  assumes "\<not> isArray (data_tasks d) \<or> \<not> isArray (data_logs d)"
  shows "handleImport (Parsed d) st =
     (Some (if \<not> isArray (data_tasks d) then tasksAlert else logsAlert), st)"
  using assms not_truthy_not_isArray [of "data_tasks d"] not_truthy_not_isArray [of "data_logs d"]
  by (auto simp: handleImport_def)

text \<open>
  An instance: \<^verbatim>\<open>{tasks: [], logs: "not-an-array"}\<close> on the seed state.
\<close>

theorem import_shape_rejected_witness:
  "isArray (data_tasks badLogsData) \<and> \<not> isArray (data_logs badLogsData)
   \<and> handleImport (Parsed badLogsData) seedState = (Some logsAlert, seedState)"
proof -
  have t: "isArray (data_tasks badLogsData)" by code_simp
  have l: "\<not> isArray (data_logs badLogsData)" by code_simp
  then have "\<not> isArray (data_tasks badLogsData) \<or> \<not> isArray (data_logs badLogsData)" ..
  from import_shape_rejected [OF this, of seedState] t l show ?thesis by simp
qed

text \<open>
  The order of imported keys and the inherited names, evaluated: an array index is listed
  before the seed projects and a new name after them; the legacy statuses write an entry
  with the stage alone for \<^verbatim>\<open>toString\<close>, none for an unknown name and none for
  \<^verbatim>\<open>__proto__\<close>; \<^verbatim>\<open>stage\<close> is an inherited name after \<^verbatim>\<open>__proto__\<close> and unknown before.
\<close>

lemma importProjectState_order_example:
  "map fst (importProjectState
      [(''42'', \<lparr>stage = Building, blockers = Some [], nextCheckpoint = Some []\<rparr>),
       (''beta'', \<lparr>stage = Building, blockers = Some [], nextCheckpoint = Some []\<rparr>)])
     = ''42'' # map project_id DEFAULT_PROJECTS @ [''beta'']"
  by code_simp

lemma importProjectStatuses_inherited_example:
  "importProjectStatuses
      [(''toString'', Building), (''unknown'', Building), (''__proto__'', Paused),
       (''stage'', Shipping)]
     = createDefaultProjectState
       @ [(''toString'', \<lparr>stage = Building, blockers = None, nextCheckpoint = None\<rparr>),
          (''stage'', \<lparr>stage = Shipping, blockers = None, nextCheckpoint = None\<rparr>)]
   \<and> importProjectStatuses [(''stage'', Shipping), (''__proto__'', Paused)]
       = createDefaultProjectState"
  by code_simp

subsection \<open>Accepted stage changes\<close>

text \<open>
  Claim C6. A request for Planning, Maintenance or Paused is always accepted, and after
  every accepted stage change the entry of the selected project has the requested stage
  (its other fields as before) and its ledger entry has \<^verbatim>\<open>lastUpdated\<close> equal to the
  current time (its other fields as before).
\<close>

theorem unguarded_stage_accepted:
  "(nextStage = Planning \<or> nextStage = Maintenance \<or> nextStage = Paused
      \<longrightarrow> fst (handleUpdateProjectState now (Set_stage nextStage) st) = None)
   \<and> (fst (handleUpdateProjectState now (Set_stage nextStage) st) = None
      \<longrightarrow> map_of (projectState (snd (handleUpdateProjectState now (Set_stage nextStage) st)))
            (selectedProjectId st)
          = Some ((currentProjectState st)\<lparr>stage := nextStage\<rparr>)
        \<and> map_of (projectLedger (snd (handleUpdateProjectState now (Set_stage nextStage) st)))
            (selectedProjectId st)
          = Some ((currentProjectLedger st)\<lparr>lastUpdated := now\<rparr>))"
proof (intro conjI impI)
  assume "nextStage = Planning \<or> nextStage = Maintenance \<or> nextStage = Paused"
  then have "stageGuard (Set_stage nextStage) st = None"
    by (auto simp: stageGuard_def)
  then show "fst (handleUpdateProjectState now (Set_stage nextStage) st) = None"
    by (simp add: handleUpdateProjectState_accepted)
next
  assume a: "fst (handleUpdateProjectState now (Set_stage nextStage) st) = None"
  then have g: "stageGuard (Set_stage nextStage) st = None"
    by (cases "stageGuard (Set_stage nextStage) st") (simp_all add: handleUpdateProjectState_rejected)
  from handleUpdateProjectState_accepted [OF g, of now]
  show "map_of (projectState (snd (handleUpdateProjectState now (Set_stage nextStage) st)))
            (selectedProjectId st)
          = Some ((currentProjectState st)\<lparr>stage := nextStage\<rparr>)"
    by (simp add: map_of_setProperty)
  from handleUpdateProjectState_accepted [OF g, of now]
  show "map_of (projectLedger (snd (handleUpdateProjectState now (Set_stage nextStage) st)))
            (selectedProjectId st)
          = Some ((currentProjectLedger st)\<lparr>lastUpdated := now\<rparr>)"
    by (simp add: map_of_setProperty)
qed

text \<open>
  An instance: SignalCrypt, with no confidence score and while Ark Engine is in Building,
  moves to Planning.
\<close>

theorem unguarded_stage_accepted_witness:
  "fst (handleUpdateProjectState ''2026-01-01T09:20:00.000Z'' (Set_stage Planning) arkBuilding) = None
   \<and> map_of (projectState (snd (handleUpdateProjectState ''2026-01-01T09:20:00.000Z''
                (Set_stage Planning) arkBuilding))) ''signalcrypt''
       = Some \<lparr>stage = Planning, blockers = Some [], nextCheckpoint = Some []\<rparr>
   \<and> map_of (projectLedger (snd (handleUpdateProjectState ''2026-01-01T09:20:00.000Z''
                (Set_stage Planning) arkBuilding))) ''signalcrypt''
       = Some ((emptyLedger ''B2B security / trust audit offer with approval-gated outbound systems.'')
                 \<lparr>lastUpdated := ''2026-01-01T09:20:00.000Z''\<rparr>)"
proof -
  have s: "selectedProjectId arkBuilding = ''signalcrypt''" by code_simp
  have cs: "currentProjectState arkBuilding = \<lparr>stage = Planning, blockers = Some [], nextCheckpoint = Some []\<rparr>"
    by code_simp
  have cl: "currentProjectLedger arkBuilding
      = emptyLedger ''B2B security / trust audit offer with approval-gated outbound systems.''"
    by code_simp
  from unguarded_stage_accepted [of Planning "''2026-01-01T09:20:00.000Z''" arkBuilding] show ?thesis
    by (simp add: s cs cl)
qed

subsection \<open>Ledger updates\<close>

text \<open>
  Claim C7 as stated fails: a confidence score of 7 is stored as given, and the ledger
  changes.
\<close>

theorem confidence_out_of_range_counterexample:
  "map_option confidenceScore
     (map_of (projectLedger (handleUpdateProjectLedger ''2026-01-01T09:20:00.000Z''
                (Set_confidenceScore (Some 7)) seedState)) ''ark-engine'')
     = Some (Some 7)
   \<and> handleUpdateProjectLedger ''2026-01-01T09:20:00.000Z'' (Set_confidenceScore (Some 7))
        seedState \<noteq> seedState"
  by code_simp

text \<open>
  Claim C7, amended. \<^verbatim>\<open>handleUpdateProjectLedger\<close> on \<^verbatim>\<open>confidenceScore\<close> checks no range:
  whatever number or null it is given, the ledger entry of the selected project gets that
  value, neither refused nor clamped, and \<^verbatim>\<open>lastUpdated\<close> becomes the current time.
\<close>

theorem confidence_stored_as_given:
  "map_of (projectLedger (handleUpdateProjectLedger now (Set_confidenceScore v) st))
     (selectedProjectId st)
     = Some ((currentProjectLedger st)\<lparr>confidenceScore := v, lastUpdated := now\<rparr>)"
  by (cases v) (simp_all add: handleUpdateProjectLedger_lookup)

text \<open>
  Claim C8. Setting the confidence score to 4 at time \<open>t1\<close> and again at time \<open>t2\<close>
  leaves the state that setting it once at \<open>t2\<close> leaves: the score is 4 and
  \<^verbatim>\<open>lastUpdated\<close> is \<open>t2\<close>.
\<close>

theorem confidence_update_twice:
  "handleUpdateProjectLedger t2 (Set_confidenceScore (Some 4))
     (handleUpdateProjectLedger t1 (Set_confidenceScore (Some 4)) st)
     = handleUpdateProjectLedger t2 (Set_confidenceScore (Some 4)) st
   \<and> map_of (projectLedger (handleUpdateProjectLedger t2 (Set_confidenceScore (Some 4))
        (handleUpdateProjectLedger t1 (Set_confidenceScore (Some 4)) st))) (selectedProjectId st)
     = Some ((currentProjectLedger st)\<lparr>confidenceScore := Some 4, lastUpdated := t2\<rparr>)"
proof
  show "handleUpdateProjectLedger t2 (Set_confidenceScore (Some 4))
     (handleUpdateProjectLedger t1 (Set_confidenceScore (Some 4)) st)
     = handleUpdateProjectLedger t2 (Set_confidenceScore (Some 4)) st"
    by (simp add: handleUpdateProjectLedger_def Let_def map_of_setProperty setProperty_twice
        currentProjectLedger_def split: option.splits)
  then show "map_of (projectLedger (handleUpdateProjectLedger t2 (Set_confidenceScore (Some 4))
        (handleUpdateProjectLedger t1 (Set_confidenceScore (Some 4)) st))) (selectedProjectId st)
     = Some ((currentProjectLedger st)\<lparr>confidenceScore := Some 4, lastUpdated := t2\<rparr>)"
    by (simp add: handleUpdateProjectLedger_lookup)
qed

subsection \<open>Frame of a stage change\<close>

text \<open>
  Claim C9. A stage-change request leaves the entry of every project other than the
  selected one as it was, whether it is accepted or refused, and a refused request leaves
  the whole state as it was.
\<close>

theorem stage_change_frame:
  "(\<forall>q. q \<noteq> selectedProjectId st \<longrightarrow>
        map_of (projectState (snd (handleUpdateProjectState now (Set_stage nextStage) st))) q
          = map_of (projectState st) q)
   \<and> (fst (handleUpdateProjectState now (Set_stage nextStage) st) \<noteq> None
        \<longrightarrow> snd (handleUpdateProjectState now (Set_stage nextStage) st) = st)"
proof (cases "stageGuard (Set_stage nextStage) st")
  case None
  from handleUpdateProjectState_accepted [OF None, of now] show ?thesis
    by (simp add: map_of_setProperty)
next
  case (Some msg)
  then show ?thesis by (simp add: handleUpdateProjectState_rejected)
qed

text \<open>
  An instance: while Ark Engine is in Building, pausing SignalCrypt leaves Ark Engine's
  entry, and SignalCrypt's refused request for Shipping leaves the state.
\<close>

theorem stage_change_frame_witness:
  "map_of (projectState (snd (handleUpdateProjectState ''2026-01-01T09:20:00.000Z''
              (Set_stage Paused) arkBuilding))) ''ark-engine''
     = Some \<lparr>stage = Building, blockers = Some [], nextCheckpoint = Some []\<rparr>
   \<and> fst (handleUpdateProjectState ''2026-01-01T09:20:00.000Z'' (Set_stage Shipping) arkBuilding)
       \<noteq> None
   \<and> snd (handleUpdateProjectState ''2026-01-01T09:20:00.000Z'' (Set_stage Shipping) arkBuilding)
       = arkBuilding"
proof -
  have s: "''ark-engine'' \<noteq> selectedProjectId arkBuilding" by code_simp
  have m: "map_of (projectState arkBuilding) ''ark-engine''
     = Some \<lparr>stage = Building, blockers = Some [], nextCheckpoint = Some []\<rparr>" by code_simp
  have r: "fst (handleUpdateProjectState ''2026-01-01T09:20:00.000Z'' (Set_stage Shipping) arkBuilding)
       \<noteq> None" by code_simp
  from stage_change_frame [of arkBuilding "''2026-01-01T09:20:00.000Z''" Paused]
    stage_change_frame [of arkBuilding "''2026-01-01T09:20:00.000Z''" Shipping] s m r
  show ?thesis by simp
qed

section \<open>The approval block of a fetched batch\<close>

text \<open>
  Claim C10. When SignalCrypt is not locked and the server answers with a batch, the batch
  is stored (in the panel and in local storage) with its approval block replaced: the
  stored status is \<^verbatim>\<open>APPROVED\<close> only if the response said \<^verbatim>\<open>APPROVED\<close>; otherwise the
  stored block is \<^verbatim>\<open>PENDING\<close> with empty \<^verbatim>\<open>approvedBy\<close> and \<^verbatim>\<open>approvedAt\<close>. The stored
  status is never \<^verbatim>\<open>REJECTED\<close>.
\<close>

theorem fetched_batch_approval:
  assumes "\<not> isSignalCryptLocked st"
  shows "scBatch (fetchSignalCryptBatch now mockRest (Response True code (Inr batch)) st sc)
           = Some (batch\<lparr>approval := Some (fetchedApproval (approval batch))\<rparr>)
     \<and> scBatchStorage (fetchSignalCryptBatch now mockRest (Response True code (Inr batch)) st sc)
           = Some (batch\<lparr>approval := Some (fetchedApproval (approval batch))\<rparr>)
     \<and> (status (fetchedApproval (approval batch)) = Some ''APPROVED''
          \<longrightarrow> (\<exists>x. approval batch = Some x \<and> status x = Some ''APPROVED''))
     \<and> (status (fetchedApproval (approval batch)) \<noteq> Some ''APPROVED''
          \<longrightarrow> fetchedApproval (approval batch)
                = \<lparr>status = Some ''PENDING'', approvedBy = [], approvedAt = []\<rparr>)
     \<and> status (fetchedApproval (approval batch)) \<noteq> Some ''REJECTED''"
proof (intro conjI impI)
  show "scBatch (fetchSignalCryptBatch now mockRest (Response True code (Inr batch)) st sc)
           = Some (batch\<lparr>approval := Some (fetchedApproval (approval batch))\<rparr>)"
    using assms by (simp add: fetchSignalCryptBatch_def Let_def)
  show "scBatchStorage (fetchSignalCryptBatch now mockRest (Response True code (Inr batch)) st sc)
           = Some (batch\<lparr>approval := Some (fetchedApproval (approval batch))\<rparr>)"
    using assms by (simp add: fetchSignalCryptBatch_def Let_def)
  show "\<exists>x. approval batch = Some x \<and> status x = Some ''APPROVED''"
    if "status (fetchedApproval (approval batch)) = Some ''APPROVED''"
    using that by (simp add: fetchedApproval_status split: if_splits)
  show "fetchedApproval (approval batch)
                = \<lparr>status = Some ''PENDING'', approvedBy = [], approvedAt = []\<rparr>"
    if "status (fetchedApproval (approval batch)) \<noteq> Some ''APPROVED''"
    using that by (rule fetchedApproval_pending)
  show "status (fetchedApproval (approval batch)) \<noteq> Some ''REJECTED''"
    by (simp add: fetchedApproval_status)
qed

text \<open>
  An instance: a response whose approval block says \<^verbatim>\<open>REJECTED\<close> is stored as
  \<^verbatim>\<open>PENDING\<close>.
\<close>

theorem fetched_batch_approval_witness:
  "\<not> isSignalCryptLocked scReady
   \<and> scBatch (fetchSignalCryptBatch ''2026-01-02T10:00:00.000Z'' ()
        (Response True 200 (Inr rejectedBatch)) scReady emptyPanel)
       = Some (rejectedBatch\<lparr>approval :=
                 Some \<lparr>status = Some ''PENDING'', approvedBy = [], approvedAt = []\<rparr>\<rparr>)"
proof -
  have u: "\<not> isSignalCryptLocked scReady" by code_simp
  have a: "fetchedApproval (approval rejectedBatch)
      = \<lparr>status = Some ''PENDING'', approvedBy = [], approvedAt = []\<rparr>" by code_simp
  from fetched_batch_approval [OF u, of "''2026-01-02T10:00:00.000Z''" "()" 200 rejectedBatch emptyPanel] u a
  show ?thesis by simp
qed

end
